theory Spec2Isabelle
  imports Main
begin

section \<open>Generated text and terms\<close>

text \<open>
  The module \<^verbatim>\<open>metalang99/gen.h\<close> assembles fragments of C source text. A fragment
  is a sequence of preprocessing tokens; white space between tokens carries no meaning.
  Keywords such as \<^verbatim>\<open>struct\<close> or \<^verbatim>\<open>void\<close> are identifiers for the preprocessor.
\<close>

datatype token =
    Ident string
  | Number nat
  | Comma
  | Semi
  | LBrace
  | RBrace
  | LParen
  | RParen
  | Punct string

type_synonym fragment = "token list"

text \<open>
  Modelled from the spec: the translation-time failures the dispatcher and the counter
  primitive can raise (section 7 of the spec).
\<close>

datatype error = Arity_mismatch | Nat_underflow

text \<open>
  Modelled from the spec: a term. It is identified with the outcome of evaluating it: a
  failure, or the value it reduces to (a fragment, a natural number, or a list of
  fragments).
\<close>

type_synonym 'a ml99 = "error + 'a"

text \<open>
  Modelled from the spec: the value constructor \<^verbatim>\<open>v(...)\<close> of \<^verbatim>\<open>lang.h\<close>, an
  already-finalized fragment that evaluates to itself.
\<close>

definition v :: "'a \<Rightarrow> 'a ml99" where
  "v x = Inr x"

text \<open>
  Modelled from the spec: \<^verbatim>\<open>ML99_EMPTY()\<close> of \<^verbatim>\<open>util.h\<close>, which expands to no token
  at all.
\<close>

definition ML99_EMPTY :: fragment where
  "ML99_EMPTY = []"

text \<open>
  Modelled from the spec: \<^verbatim>\<open>ML99_TERMS(a, b)\<close> of \<^verbatim>\<open>lang.h\<close>, a sequence of two
  terms, evaluated left to right; the result is the juxtaposition of their values.
\<close>

definition ML99_TERMS :: "fragment ml99 \<Rightarrow> fragment ml99 \<Rightarrow> fragment ml99" where
  "ML99_TERMS a b =
     (case a of
        Inl e \<Rightarrow> Inl e
      | Inr x \<Rightarrow> (case b of Inl e \<Rightarrow> Inl e | Inr y \<Rightarrow> Inr (x @ y)))"

text \<open>
  Modelled from the spec: the arity record of the dispatcher. An operation name
  \<^verbatim>\<open>op\<close> stands, by the naming convention, for the pair of macros \<^verbatim>\<open>op_ARITY\<close> and
  \<^verbatim>\<open>op_IMPL\<close>.
\<close>

record ('a, 'b) operation =
  ARITY :: nat
  IMPL :: "'a list \<Rightarrow> 'b ml99"

text \<open>
  Modelled from the spec: the eager evaluation of the arguments of a call by the
  dispatcher. Arguments are rewritten to values from left to right; the first failure
  wins.
\<close>

fun eval_args :: "'a ml99 list \<Rightarrow> 'a list ml99" where
  "eval_args [] = Inr []"
| "eval_args (Inl e # ts) = Inl e"
| "eval_args (Inr x # ts) = (case eval_args ts of Inl e \<Rightarrow> Inl e | Inr xs \<Rightarrow> Inr (x # xs))"

text \<open>
  Modelled from the spec: the dispatcher \<^verbatim>\<open>ML99_call(op, ...)\<close> of \<^verbatim>\<open>lang.h\<close>. The
  arguments are evaluated eagerly, the number of arguments is compared with the registered
  arity of the operation, and only then one rewrite step with the implementation of the
  operation is performed.
\<close>

definition ML99_call :: "('a, 'b) operation \<Rightarrow> 'a ml99 list \<Rightarrow> 'b ml99" where
  "ML99_call op args =
     (case eval_args args of
        Inl e \<Rightarrow> Inl e
      | Inr vs \<Rightarrow> if length vs = ARITY op then IMPL op vs else Inl Arity_mismatch)"

text \<open>
  Modelled from the spec: the non-strict branch selection \<^verbatim>\<open>ML99_PRIV_IF(cond, x, y)\<close>.
  It is a plain macro of the host preprocessor: it selects one of two pre-formed terms and
  hands only that one to the evaluator.
\<close>

definition ML99_PRIV_IF :: "bool \<Rightarrow> 'a \<Rightarrow> 'a \<Rightarrow> 'a" where
  "ML99_PRIV_IF cond x y = (if cond then x else y)"

text \<open>
  Modelled from the spec: \<^verbatim>\<open>ML99_IS_NIL\<close> of \<^verbatim>\<open>list.h\<close>, the test whether a list is
  the empty list.
\<close>

definition ML99_IS_NIL :: "'a list \<Rightarrow> bool" where
  "ML99_IS_NIL type_list = (case type_list of [] \<Rightarrow> True | x # xs \<Rightarrow> False)"

text \<open>
  Modelled from the spec: \<^verbatim>\<open>ML99_NAT_EQ\<close> of \<^verbatim>\<open>nat.h\<close>, the equality of two
  counters. A counter is a natural number; the spec sets no upper bound.
\<close>

definition ML99_NAT_EQ :: "nat \<Rightarrow> nat \<Rightarrow> bool" where
  "ML99_NAT_EQ x y = (x = y)"

text \<open>Modelled from the spec: \<^verbatim>\<open>ML99_INC\<close> of \<^verbatim>\<open>nat.h\<close>, the increment of a counter.\<close>

definition ML99_INC :: "nat \<Rightarrow> nat" where
  "ML99_INC x = x + 1"

text \<open>
  Modelled from the spec: \<^verbatim>\<open>ML99_tuple\<close> of \<^verbatim>\<open>tuple.h\<close>, an operation of arity 1
  that packs its argument into a parenthesized group.
\<close>

definition ML99_tuple_op :: "(fragment, fragment) operation" where
  "ML99_tuple_op = \<lparr>ARITY = 1, IMPL = \<lambda>a. v ([LParen] @ a ! 0 @ [RParen])\<rparr>"

text \<open>
  Modelled from the spec: the public macro \<^verbatim>\<open>ML99_tuple(...)\<close>, a call of that operation
  through the dispatcher.
\<close>

definition ML99_tuple :: "fragment ml99 \<Rightarrow> fragment ml99" where
  "ML99_tuple t = ML99_call ML99_tuple_op [t]"

text \<open>
  Modelled from the spec: dropping the leading item of a comma-separated fragment, that
  is, everything up to and including the first comma that is not enclosed in
  parentheses. The first argument is the current nesting depth.
\<close>

fun VARIADICS_TAIL :: "nat \<Rightarrow> fragment \<Rightarrow> fragment" where
  "VARIADICS_TAIL d [] = []"
| "VARIADICS_TAIL d (Comma # ts) = (if d = 0 then ts else VARIADICS_TAIL d ts)"
| "VARIADICS_TAIL d (LParen # ts) = VARIADICS_TAIL (d + 1) ts"
| "VARIADICS_TAIL d (RParen # ts) = VARIADICS_TAIL (d - 1) ts"
| "VARIADICS_TAIL d (t # ts) = VARIADICS_TAIL d ts"

text \<open>
  Modelled from the spec: \<^verbatim>\<open>ML99_variadicsTail\<close> of \<^verbatim>\<open>variadics.h\<close>, an operation
  of arity 1 that drops the leading item of its argument.
\<close>

definition ML99_variadicsTail_op :: "(fragment, fragment) operation" where
  "ML99_variadicsTail_op = \<lparr>ARITY = 1, IMPL = \<lambda>a. v (VARIADICS_TAIL 0 (a ! 0))\<rparr>"

text \<open>
  Modelled from the spec: the public macro \<^verbatim>\<open>ML99_variadicsTail(...)\<close>, a call of that
  operation through the dispatcher.
\<close>

definition ML99_variadicsTail :: "fragment ml99 \<Rightarrow> fragment ml99" where
  "ML99_variadicsTail t = ML99_call ML99_variadicsTail_op [t]"

text \<open>
  Modelled from the spec: \<^verbatim>\<open>ML99_repeat_IMPL(n, f)\<close> of \<^verbatim>\<open>control.h\<close>. The counter
  is taken apart once per recursion step until it reaches zero, the base case; the
  operation \<open>f\<close> is dispatched on each index below \<open>n\<close>, in increasing order.
\<close>

fun ML99_repeat_IMPL :: "nat \<Rightarrow> (nat, fragment) operation \<Rightarrow> fragment ml99" where
  "ML99_repeat_IMPL 0 f = v ML99_EMPTY"
| "ML99_repeat_IMPL (Suc i) f = ML99_TERMS (ML99_repeat_IMPL i f) (ML99_call f [v i])"

text \<open>
  The token pasting \<^verbatim>\<open>_##i\<close>: the identifier made of an underscore and the decimal
  digits of the counter \<open>i\<close>.
\<close>

fun decimal :: "nat \<Rightarrow> string" where
  "decimal n =
     (if n < 10 then [''0123456789'' ! n]
      else decimal (n div 10) @ [''0123456789'' ! (n mod 10)])"

declare decimal.simps [simp del]

definition paste_underscore :: "nat \<Rightarrow> token" where
  "paste_underscore i = Ident (CHR ''_'' # decimal i)"

section \<open>Declaration formatters\<close>

text \<open>
  Lines 321 to 328 of \<^verbatim>\<open>gen.h\<close>. The variadic parameter of each macro receives the
  body, commas included.
\<close>

definition ML99_braced_IMPL :: "fragment \<Rightarrow> fragment ml99" where
  "ML99_braced_IMPL args = v ([LBrace] @ args @ [RBrace])"

definition ML99_typedef_IMPL :: "fragment \<Rightarrow> fragment \<Rightarrow> fragment ml99" where
  "ML99_typedef_IMPL ident args = v ([Ident ''typedef''] @ args @ ident @ [Semi])"

definition ML99_struct_IMPL :: "fragment \<Rightarrow> fragment \<Rightarrow> fragment ml99" where
  "ML99_struct_IMPL ident args = v ([Ident ''struct''] @ ident @ [LBrace] @ args @ [RBrace])"

definition ML99_anonStruct_IMPL :: "fragment \<Rightarrow> fragment ml99" where
  "ML99_anonStruct_IMPL args = v ([Ident ''struct''] @ [LBrace] @ args @ [RBrace])"

definition ML99_union_IMPL :: "fragment \<Rightarrow> fragment \<Rightarrow> fragment ml99" where
  "ML99_union_IMPL ident args = v ([Ident ''union''] @ ident @ [LBrace] @ args @ [RBrace])"

definition ML99_anonUnion_IMPL :: "fragment \<Rightarrow> fragment ml99" where
  "ML99_anonUnion_IMPL args = v ([Ident ''union''] @ [LBrace] @ args @ [RBrace])"

definition ML99_enum_IMPL :: "fragment \<Rightarrow> fragment \<Rightarrow> fragment ml99" where
  "ML99_enum_IMPL ident args = v ([Ident ''enum''] @ ident @ [LBrace] @ args @ [RBrace])"

definition ML99_anonEnum_IMPL :: "fragment \<Rightarrow> fragment ml99" where
  "ML99_anonEnum_IMPL args = v ([Ident ''enum''] @ [LBrace] @ args @ [RBrace])"

text \<open>The arity specifiers, lines 366 to 379.\<close>

definition ML99_braced_ARITY :: nat where "ML99_braced_ARITY = 1"
definition ML99_typedef_ARITY :: nat where "ML99_typedef_ARITY = 2"
definition ML99_struct_ARITY :: nat where "ML99_struct_ARITY = 2"
definition ML99_anonStruct_ARITY :: nat where "ML99_anonStruct_ARITY = 1"
definition ML99_union_ARITY :: nat where "ML99_union_ARITY = 2"
definition ML99_anonUnion_ARITY :: nat where "ML99_anonUnion_ARITY = 1"
definition ML99_enum_ARITY :: nat where "ML99_enum_ARITY = 2"
definition ML99_anonEnum_ARITY :: nat where "ML99_anonEnum_ARITY = 1"
definition ML99_indexedParams_ARITY :: nat where "ML99_indexedParams_ARITY = 1"
definition ML99_indexedFields_ARITY :: nat where "ML99_indexedFields_ARITY = 1"
definition ML99_indexedInitializerList_ARITY :: nat where "ML99_indexedInitializerList_ARITY = 1"
definition ML99_indexedArgs_ARITY :: nat where "ML99_indexedArgs_ARITY = 1"
definition ML99_PRIV_indexedItem_ARITY :: nat where "ML99_PRIV_indexedItem_ARITY = 1"

text \<open>
  The operation names of the formatters: each pairs its arity specifier with its
  implementation, which receives the evaluated arguments by position.
\<close>

definition ML99_braced_op :: "(fragment, fragment) operation" where
  "ML99_braced_op = \<lparr>ARITY = ML99_braced_ARITY, IMPL = \<lambda>a. ML99_braced_IMPL (a ! 0)\<rparr>"

definition ML99_typedef_op :: "(fragment, fragment) operation" where
  "ML99_typedef_op =
     \<lparr>ARITY = ML99_typedef_ARITY, IMPL = \<lambda>a. ML99_typedef_IMPL (a ! 0) (a ! 1)\<rparr>"

definition ML99_struct_op :: "(fragment, fragment) operation" where
  "ML99_struct_op =
     \<lparr>ARITY = ML99_struct_ARITY, IMPL = \<lambda>a. ML99_struct_IMPL (a ! 0) (a ! 1)\<rparr>"

definition ML99_anonStruct_op :: "(fragment, fragment) operation" where
  "ML99_anonStruct_op =
     \<lparr>ARITY = ML99_anonStruct_ARITY, IMPL = \<lambda>a. ML99_anonStruct_IMPL (a ! 0)\<rparr>"

definition ML99_union_op :: "(fragment, fragment) operation" where
  "ML99_union_op =
     \<lparr>ARITY = ML99_union_ARITY, IMPL = \<lambda>a. ML99_union_IMPL (a ! 0) (a ! 1)\<rparr>"

definition ML99_anonUnion_op :: "(fragment, fragment) operation" where
  "ML99_anonUnion_op =
     \<lparr>ARITY = ML99_anonUnion_ARITY, IMPL = \<lambda>a. ML99_anonUnion_IMPL (a ! 0)\<rparr>"

definition ML99_enum_op :: "(fragment, fragment) operation" where
  "ML99_enum_op =
     \<lparr>ARITY = ML99_enum_ARITY, IMPL = \<lambda>a. ML99_enum_IMPL (a ! 0) (a ! 1)\<rparr>"

definition ML99_anonEnum_op :: "(fragment, fragment) operation" where
  "ML99_anonEnum_op =
     \<lparr>ARITY = ML99_anonEnum_ARITY, IMPL = \<lambda>a. ML99_anonEnum_IMPL (a ! 0)\<rparr>"

text \<open>
  The public macros, lines 82 to 144: each hands the operation name and the argument
  terms it was given to the dispatcher. A macro declared as \<^verbatim>\<open>(ident, ...)\<close> takes one
  term and then any number of further terms; one declared as \<^verbatim>\<open>(...)\<close> takes any
  number of terms.
\<close>

definition ML99_braced :: "fragment ml99 list \<Rightarrow> fragment ml99" where
  "ML99_braced args = ML99_call ML99_braced_op args"

definition ML99_typedef :: "fragment ml99 \<Rightarrow> fragment ml99 list \<Rightarrow> fragment ml99" where
  "ML99_typedef ident args = ML99_call ML99_typedef_op (ident # args)"

definition ML99_struct :: "fragment ml99 \<Rightarrow> fragment ml99 list \<Rightarrow> fragment ml99" where
  "ML99_struct ident args = ML99_call ML99_struct_op (ident # args)"

definition ML99_anonStruct :: "fragment ml99 list \<Rightarrow> fragment ml99" where
  "ML99_anonStruct args = ML99_call ML99_anonStruct_op args"

definition ML99_union :: "fragment ml99 \<Rightarrow> fragment ml99 list \<Rightarrow> fragment ml99" where
  "ML99_union ident args = ML99_call ML99_union_op (ident # args)"

definition ML99_anonUnion :: "fragment ml99 list \<Rightarrow> fragment ml99" where
  "ML99_anonUnion args = ML99_call ML99_anonUnion_op args"

definition ML99_enum :: "fragment ml99 \<Rightarrow> fragment ml99 list \<Rightarrow> fragment ml99" where
  "ML99_enum ident args = ML99_call ML99_enum_op (ident # args)"

definition ML99_anonEnum :: "fragment ml99 list \<Rightarrow> fragment ml99" where
  "ML99_anonEnum args = ML99_call ML99_anonEnum_op args"

section \<open>Indexed parameters, fields, initializers and arguments\<close>

text \<open>
  Lines 331 to 341. \<^verbatim>\<open>ML99_matchWithArgs_IMPL(type_list, ML99_PRIV_indexedParamsAux_, i)\<close>
  of \<^verbatim>\<open>list.h\<close> is the pattern matching of the spec: it rewrites to the \<^verbatim>\<open>nil\<close> or to
  the \<^verbatim>\<open>cons\<close> implementation of the matcher, according to the constructor of the list,
  and hands on the extra argument. It is the \<open>case\<close> below.
\<close>

definition ML99_PRIV_indexedParamsAux_nil_IMPL :: "nat \<Rightarrow> fragment ml99" where
  "ML99_PRIV_indexedParamsAux_nil_IMPL i = v ML99_EMPTY"

function ML99_PRIV_indexedParamsAux_IMPL :: "fragment list \<Rightarrow> nat \<Rightarrow> fragment ml99"
  and ML99_PRIV_indexedParamsAux_cons_IMPL :: "fragment \<Rightarrow> fragment list \<Rightarrow> nat \<Rightarrow> fragment ml99"
where
  "ML99_PRIV_indexedParamsAux_IMPL type_list i =
     (case type_list of
        [] \<Rightarrow> ML99_PRIV_indexedParamsAux_nil_IMPL i
      | x # xs \<Rightarrow> ML99_PRIV_indexedParamsAux_cons_IMPL x xs i)"
| "ML99_PRIV_indexedParamsAux_cons_IMPL x xs i =
     ML99_TERMS (v ([Comma] @ x @ [paste_underscore i]))
       (ML99_PRIV_indexedParamsAux_IMPL xs (ML99_INC i))"
  by pat_completeness auto
termination
  by (relation "measure (\<lambda>p. case p of Inl (l, i) \<Rightarrow> 2 * length l
                                   | Inr (x, xs, i) \<Rightarrow> 2 * length xs + 1)") auto

declare ML99_PRIV_indexedParamsAux_IMPL.simps [simp del]
declare ML99_PRIV_indexedParamsAux_cons_IMPL.simps [simp del]

definition ML99_indexedParams_IMPL :: "fragment list \<Rightarrow> fragment ml99" where
  "ML99_indexedParams_IMPL type_list =
     ML99_tuple (ML99_PRIV_IF
       (ML99_IS_NIL type_list)
       (v [Ident ''void''])
       (ML99_variadicsTail (ML99_PRIV_indexedParamsAux_IMPL type_list 0)))"

text \<open>Lines 345 to 351.\<close>

definition ML99_PRIV_indexedFields_nil_IMPL :: "nat \<Rightarrow> fragment ml99" where
  "ML99_PRIV_indexedFields_nil_IMPL i = v ML99_EMPTY"

function ML99_PRIV_indexedFieldsAux_IMPL :: "fragment list \<Rightarrow> nat \<Rightarrow> fragment ml99"
  and ML99_PRIV_indexedFields_cons_IMPL :: "fragment \<Rightarrow> fragment list \<Rightarrow> nat \<Rightarrow> fragment ml99"
where
  "ML99_PRIV_indexedFieldsAux_IMPL type_list i =
     (case type_list of
        [] \<Rightarrow> ML99_PRIV_indexedFields_nil_IMPL i
      | x # xs \<Rightarrow> ML99_PRIV_indexedFields_cons_IMPL x xs i)"
| "ML99_PRIV_indexedFields_cons_IMPL x xs i =
     ML99_TERMS (v (x @ [paste_underscore i] @ [Semi]))
       (ML99_PRIV_indexedFieldsAux_IMPL xs (ML99_INC i))"
  by pat_completeness auto
termination
  by (relation "measure (\<lambda>p. case p of Inl (l, i) \<Rightarrow> 2 * length l
                                   | Inr (x, xs, i) \<Rightarrow> 2 * length xs + 1)") auto

declare ML99_PRIV_indexedFieldsAux_IMPL.simps [simp del]
declare ML99_PRIV_indexedFields_cons_IMPL.simps [simp del]

definition ML99_indexedFields_IMPL :: "fragment list \<Rightarrow> fragment ml99" where
  "ML99_indexedFields_IMPL type_list = ML99_PRIV_indexedFieldsAux_IMPL type_list 0"

text \<open>Lines 354 to 363.\<close>

definition ML99_PRIV_indexedItem_IMPL :: "nat \<Rightarrow> fragment ml99" where
  "ML99_PRIV_indexedItem_IMPL i = v ([Comma] @ [paste_underscore i])"

definition ML99_PRIV_indexedItem_op :: "(nat, fragment) operation" where
  "ML99_PRIV_indexedItem_op =
     \<lparr>ARITY = ML99_PRIV_indexedItem_ARITY, IMPL = \<lambda>a. ML99_PRIV_indexedItem_IMPL (a ! 0)\<rparr>"

definition ML99_PRIV_INDEXED_ITEMS :: "nat \<Rightarrow> fragment ml99 \<Rightarrow> fragment ml99" where
  "ML99_PRIV_INDEXED_ITEMS n empty_case =
     ML99_PRIV_IF
       (ML99_NAT_EQ n 0)
       empty_case
       (ML99_variadicsTail (ML99_repeat_IMPL n ML99_PRIV_indexedItem_op))"

definition ML99_indexedInitializerList_IMPL :: "nat \<Rightarrow> fragment ml99" where
  "ML99_indexedInitializerList_IMPL n =
     ML99_braced [ML99_PRIV_INDEXED_ITEMS n (v [Number 0])]"

definition ML99_indexedArgs_IMPL :: "nat \<Rightarrow> fragment ml99" where
  "ML99_indexedArgs_IMPL n = ML99_PRIV_INDEXED_ITEMS n (v ML99_EMPTY)"

definition ML99_indexedParams_op :: "(fragment list, fragment) operation" where
  "ML99_indexedParams_op =
     \<lparr>ARITY = ML99_indexedParams_ARITY, IMPL = \<lambda>a. ML99_indexedParams_IMPL (a ! 0)\<rparr>"

definition ML99_indexedFields_op :: "(fragment list, fragment) operation" where
  "ML99_indexedFields_op =
     \<lparr>ARITY = ML99_indexedFields_ARITY, IMPL = \<lambda>a. ML99_indexedFields_IMPL (a ! 0)\<rparr>"

definition ML99_indexedInitializerList_op :: "(nat, fragment) operation" where
  "ML99_indexedInitializerList_op =
     \<lparr>ARITY = ML99_indexedInitializerList_ARITY,
      IMPL = \<lambda>a. ML99_indexedInitializerList_IMPL (a ! 0)\<rparr>"

definition ML99_indexedArgs_op :: "(nat, fragment) operation" where
  "ML99_indexedArgs_op =
     \<lparr>ARITY = ML99_indexedArgs_ARITY, IMPL = \<lambda>a. ML99_indexedArgs_IMPL (a ! 0)\<rparr>"

text \<open>The public macros, lines 163 to 220.\<close>

definition ML99_indexedParams :: "fragment list ml99 \<Rightarrow> fragment ml99" where
  "ML99_indexedParams type_list = ML99_call ML99_indexedParams_op [type_list]"

definition ML99_indexedFields :: "fragment list ml99 \<Rightarrow> fragment ml99" where
  "ML99_indexedFields type_list = ML99_call ML99_indexedFields_op [type_list]"

definition ML99_indexedInitializerList :: "nat ml99 \<Rightarrow> fragment ml99" where
  "ML99_indexedInitializerList n = ML99_call ML99_indexedInitializerList_op [n]"

definition ML99_indexedArgs :: "nat ml99 \<Rightarrow> fragment ml99" where
  "ML99_indexedArgs n = ML99_call ML99_indexedArgs_op [n]"

section \<open>Counting rewrite steps\<close>

text \<open>
  Modelled from the spec: a term together with the number of rewrite steps its evaluation
  performs. A single dispatched call is a single rewrite step; a value takes none. A
  failing evaluation aborts the translation and has no count.
\<close>

type_synonym 'a counted = "('a \<times> nat) ml99"

text \<open>
  Modelled from the spec: a term that is already an outcome, taken as a counted term that
  needs no further step.
\<close>

definition no_step :: "'a ml99 \<Rightarrow> 'a counted" where
  "no_step t = (case t of Inl e \<Rightarrow> Inl e | Inr x \<Rightarrow> Inr (x, 0))"

text \<open>
  Modelled from the spec: \<^verbatim>\<open>ML99_TERMS(a, b)\<close> with the steps of both terms added up.
\<close>

definition ML99_TERMS_counted :: "fragment counted \<Rightarrow> fragment counted \<Rightarrow> fragment counted" where
  "ML99_TERMS_counted a b =
     (case a of
        Inl e \<Rightarrow> Inl e
      | Inr (x, j) \<Rightarrow> (case b of Inl e \<Rightarrow> Inl e | Inr (y, k) \<Rightarrow> Inr (x @ y, j + k)))"

text \<open>
  Modelled from the spec: the dispatcher \<^verbatim>\<open>ML99_call(op, ...)\<close> with its steps counted:
  the steps of the arguments, which are all evaluated before the call is dispatched, one
  step for the call itself, and the steps of the term the implementation rewrites to.
\<close>

definition ML99_call_counted :: "('a, 'b \<times> nat) operation \<Rightarrow> 'a counted list \<Rightarrow> 'b counted" where
  "ML99_call_counted op args =
     (case eval_args args of
        Inl e \<Rightarrow> Inl e
      | Inr vs \<Rightarrow>
          if length vs = ARITY op then
            (case IMPL op (map fst vs) of
               Inl e \<Rightarrow> Inl e
             | Inr (x, k) \<Rightarrow> Inr (x, sum_list (map snd vs) + 1 + k))
          else Inl Arity_mismatch)"

text \<open>
  Modelled from the spec: \<^verbatim>\<open>ML99_variadicsTail\<close> as an operation on counted terms; its
  implementation rewrites to a value.
\<close>

definition ML99_variadicsTail_op_counted :: "(fragment, fragment \<times> nat) operation" where
  "ML99_variadicsTail_op_counted =
     \<lparr>ARITY = ARITY ML99_variadicsTail_op, IMPL = \<lambda>a. no_step (IMPL ML99_variadicsTail_op a)\<rparr>"

definition ML99_variadicsTail_counted :: "fragment counted \<Rightarrow> fragment counted" where
  "ML99_variadicsTail_counted t = ML99_call_counted ML99_variadicsTail_op_counted [t]"

text \<open>
  Modelled from the spec: \<^verbatim>\<open>ML99_repeat_IMPL(n, f)\<close> on counted terms, with the same
  recursion on the counter.
\<close>

fun ML99_repeat_IMPL_counted :: "nat \<Rightarrow> (nat, fragment \<times> nat) operation \<Rightarrow> fragment counted" where
  "ML99_repeat_IMPL_counted 0 f = no_step (v ML99_EMPTY)"
| "ML99_repeat_IMPL_counted (Suc i) f =
     ML99_TERMS_counted (ML99_repeat_IMPL_counted i f) (ML99_call_counted f [no_step (v i)])"

text \<open>
  Lines 357 to 363 on counted terms. The implementation of \<^verbatim>\<open>ML99_PRIV_indexedItem\<close>
  rewrites to a value; the selection is the same plain macro \<^verbatim>\<open>ML99_PRIV_IF\<close>, which
  hands one of the two terms on as it is.
\<close>

definition ML99_PRIV_indexedItem_op_counted :: "(nat, fragment \<times> nat) operation" where
  "ML99_PRIV_indexedItem_op_counted =
     \<lparr>ARITY = ML99_PRIV_indexedItem_ARITY,
      IMPL = \<lambda>a. no_step (ML99_PRIV_indexedItem_IMPL (a ! 0))\<rparr>"

definition ML99_PRIV_INDEXED_ITEMS_counted :: "nat \<Rightarrow> fragment counted \<Rightarrow> fragment counted" where
  "ML99_PRIV_INDEXED_ITEMS_counted n empty_case =
     ML99_PRIV_IF
       (ML99_NAT_EQ n 0)
       empty_case
       (ML99_variadicsTail_counted
          (ML99_repeat_IMPL_counted n ML99_PRIV_indexedItem_op_counted))"

text \<open>The outcome of a counted term, with the count forgotten.\<close>

definition outcome :: "'a counted \<Rightarrow> 'a ml99" where
  "outcome t = (case t of Inl e \<Rightarrow> Inl e | Inr (x, k) \<Rightarrow> Inr x)"

section \<open>Statements of the host language\<close>

text \<open>
  The statement chaining macros of lines 239 to 290 expand to the head of a C \<^verbatim>\<open>for\<close>
  statement; the statement that follows the macro invocation becomes the body of the loop.
  Their meaning is given by the run of that loop on a program state.

  Values are integers; a pointer is the integer of its address, \<^verbatim>\<open>(void *)0\<close> is 0 and
  \<^verbatim>\<open>(void *)1\<close> is 1. The variables in scope are kept innermost declaration first, so
  that a declaration shadows an outer variable of the same name. The trace records each
  evaluation of an expression and each execution of a statement supplied by the caller.
\<close>

datatype completion = Normal | Break | Continue | Return

datatype event = Evaluated string | Executed string

record state =
  vars :: "(string \<times> int) list"
  trace :: "event list"

type_synonym expr = "state \<Rightarrow> int \<times> state"

type_synonym stmt = "state \<Rightarrow> (completion \<times> state) option"

definition read_var :: "string \<Rightarrow> state \<Rightarrow> int option" where
  "read_var x s = map_of (vars s) x"

fun assign_first :: "string \<Rightarrow> int \<Rightarrow> (string \<times> int) list \<Rightarrow> (string \<times> int) list" where
  "assign_first x c [] = []"
| "assign_first x c ((y, d) # st) =
     (if y = x then (y, c) # st else (y, d) # assign_first x c st)"

definition assign :: "string \<Rightarrow> int \<Rightarrow> state \<Rightarrow> state" where
  "assign x c s = s\<lparr>vars := assign_first x c (vars s)\<rparr>"

definition declare_var :: "string \<Rightarrow> int \<Rightarrow> state \<Rightarrow> state" where
  "declare_var x c s = s\<lparr>vars := (x, c) # vars s\<rparr>"

definition int_literal :: "int \<Rightarrow> expr" where
  "int_literal c s = (c, s)"

text \<open>The comma operator: the left operand is evaluated and its value is dropped.\<close>

definition comma :: "expr \<Rightarrow> expr \<Rightarrow> expr" where
  "comma e1 e2 s = (case e1 s of (c, s1) \<Rightarrow> e2 s1)"

text \<open>
  The declarations in the first clause of a \<^verbatim>\<open>for\<close> statement are run from left to
  right; each initializer is evaluated and the variable is brought into scope.
\<close>

fun run_decls :: "(string \<times> expr) list \<Rightarrow> state \<Rightarrow> state" where
  "run_decls [] s = s"
| "run_decls ((x, e) # ds) s = (case e s of (c, s1) \<Rightarrow> run_decls ds (declare_var x c s1))"

text \<open>
  The loop of \<^verbatim>\<open>for (...; cond; step) body\<close>. A \<^verbatim>\<open>break\<close> in the body leaves the loop, a
  \<^verbatim>\<open>continue\<close> goes on with the step, a \<^verbatim>\<open>return\<close> leaves the loop and the function.
  The loop need not terminate: the result \<open>None\<close> stands for a run that does not return.
\<close>

partial_function (option) for_loop ::
  "(state \<Rightarrow> bool) \<Rightarrow> (state \<Rightarrow> state) \<Rightarrow> stmt \<Rightarrow> state \<Rightarrow> (completion \<times> state) option"
where
  "for_loop cond step body s =
     (if cond s then
        (case body s of
           None \<Rightarrow> None
         | Some (k, s1) \<Rightarrow>
             (case k of
                Break \<Rightarrow> Some (Normal, s1)
              | Return \<Rightarrow> Some (Return, s1)
              | Normal \<Rightarrow> for_loop cond step body (step s1)
              | Continue \<Rightarrow> for_loop cond step body (step s1)))
      else Some (Normal, s))"

declare for_loop.simps [code]

text \<open>
  The whole \<^verbatim>\<open>for\<close> statement: the declared variables are in scope for the condition, the
  step and the body, and leave the scope when the loop is left.
\<close>

definition for_stmt ::
  "(string \<times> expr) list \<Rightarrow> (state \<Rightarrow> bool) \<Rightarrow> (state \<Rightarrow> state) \<Rightarrow> stmt \<Rightarrow> stmt"
where
  "for_stmt decls cond step body s =
     (case for_loop cond step body (run_decls decls s) of
        None \<Rightarrow> None
      | Some (k, s1) \<Rightarrow> Some (k, s1\<lparr>vars := drop (length decls) (vars s1)\<rparr>))"

section \<open>Statement chaining macros\<close>

text \<open>
  Lines 315 to 319: \<^verbatim>\<open>ML99_PRIV_SHADOWS\<close> wraps its argument in pragmas that silence a
  compiler diagnostic; the statement itself is unchanged.
\<close>

definition ML99_PRIV_SHADOWS :: "'a \<Rightarrow> 'a" where
  "ML99_PRIV_SHADOWS va_args = va_args"

text \<open>Lines 239 to 242. The argument is the list of variable definitions of the caller.\<close>

definition ML99_INTRODUCE_VAR_TO_STMT :: "(string \<times> expr) list \<Rightarrow> stmt \<Rightarrow> stmt" where
  "ML99_INTRODUCE_VAR_TO_STMT va_args =
     ML99_PRIV_SHADOWS (for_stmt (va_args @ [(''ml99_priv_break'', int_literal 0)])
       (\<lambda>s. read_var ''ml99_priv_break'' s \<noteq> Some 1)
       (assign ''ml99_priv_break'' 1))"

text \<open>Lines 267 and 268. The type \<open>ty\<close> of the pointee plays no part in the run.\<close>

definition ML99_INTRODUCE_NON_NULL_PTR_TO_STMT :: "string \<Rightarrow> string \<Rightarrow> expr \<Rightarrow> stmt \<Rightarrow> stmt" where
  "ML99_INTRODUCE_NON_NULL_PTR_TO_STMT ty name init =
     ML99_PRIV_SHADOWS (for_stmt [(name, init)]
       (\<lambda>s. read_var name s \<noteq> Some 0)
       (assign name 0))"

text \<open>Lines 287 to 290.\<close>

definition ML99_CHAIN_EXPR_STMT :: "expr \<Rightarrow> stmt \<Rightarrow> stmt" where
  "ML99_CHAIN_EXPR_STMT expr =
     ML99_PRIV_SHADOWS (for_stmt [(''ml99_priv_expr_stmt_break'', comma expr (int_literal 0))]
       (\<lambda>s. read_var ''ml99_priv_expr_stmt_break'' s \<noteq> Some 1)
       (assign ''ml99_priv_expr_stmt_break'' 1))"

section \<open>Expressions and statements of the caller\<close>

text \<open>
  An expression or a statement written by the caller reads the variables in scope and
  writes some of them, the variables of the macros included; it cannot bring a variable
  into the enclosing scope or remove one from it, and a write to a name that is not in
  scope has no effect. A statement completes normally or abruptly, or does not return.
  Each carries a label under which its evaluation or execution is recorded in the trace.
\<close>

type_synonym env = "string \<Rightarrow> int option"

type_synonym writes = "(string \<times> int) list"

type_synonym user_expression = "string \<times> (env \<Rightarrow> int \<times> writes)"

type_synonym user_statement = "string \<times> (env \<Rightarrow> (completion \<times> writes) option)"

definition apply_writes :: "writes \<Rightarrow> (string \<times> int) list \<Rightarrow> (string \<times> int) list" where
  "apply_writes ws st = fold (\<lambda>(x, c). assign_first x c) ws st"

definition user_expr :: "user_expression \<Rightarrow> expr" where
  "user_expr e s =
     (case snd e (map_of (vars s)) of
        (c, ws) \<Rightarrow>
          (c, \<lparr>vars = apply_writes ws (vars s), trace = trace s @ [Evaluated (fst e)]\<rparr>))"

definition user_stmt :: "user_statement \<Rightarrow> stmt" where
  "user_stmt S s =
     (case snd S (map_of (vars s)) of
        None \<Rightarrow> None
      | Some (k, ws) \<Rightarrow>
          Some (k, \<lparr>vars = apply_writes ws (vars s), trace = trace s @ [Executed (fst S)]\<rparr>))"

text \<open>A sequence of statement chaining macros in front of a terminal statement.\<close>

datatype chaining_macro =
    INTRODUCE_VAR "(string \<times> user_expression) list"
  | INTRODUCE_NON_NULL_PTR string string user_expression
  | CHAIN_EXPR user_expression

fun macro_stmt :: "chaining_macro \<Rightarrow> stmt \<Rightarrow> stmt" where
  "macro_stmt (INTRODUCE_VAR ds) =
     ML99_INTRODUCE_VAR_TO_STMT (map (\<lambda>(x, e). (x, user_expr e)) ds)"
| "macro_stmt (INTRODUCE_NON_NULL_PTR ty name init) =
     ML99_INTRODUCE_NON_NULL_PTR_TO_STMT ty name (user_expr init)"
| "macro_stmt (CHAIN_EXPR e) = ML99_CHAIN_EXPR_STMT (user_expr e)"

definition chain_stmt :: "chaining_macro list \<Rightarrow> stmt \<Rightarrow> stmt" where
  "chain_stmt ps S = foldr macro_stmt ps S"

text \<open>The evaluations a macro of the sequence performs on entry, in order.\<close>

fun macro_events :: "chaining_macro \<Rightarrow> event list" where
  "macro_events (INTRODUCE_VAR ds) = map (\<lambda>(x, e). Evaluated (fst e)) ds"
| "macro_events (INTRODUCE_NON_NULL_PTR ty name init) = [Evaluated (fst init)]"
| "macro_events (CHAIN_EXPR e) = [Evaluated (fst e)]"

text \<open>
  The state in which the statement that follows a macro is entered: the expressions of the
  macro have been evaluated and its variables are in scope.
\<close>

fun macro_entry :: "chaining_macro \<Rightarrow> state \<Rightarrow> state" where
  "macro_entry (INTRODUCE_VAR ds) s =
     declare_var ''ml99_priv_break'' 0 (run_decls (map (\<lambda>(x, e). (x, user_expr e)) ds) s)"
| "macro_entry (INTRODUCE_NON_NULL_PTR ty name init) s =
     (case user_expr init s of (c, s1) \<Rightarrow> declare_var name c s1)"
| "macro_entry (CHAIN_EXPR e) s =
     (case user_expr e s of (c, s1) \<Rightarrow> declare_var ''ml99_priv_expr_stmt_break'' 0 s1)"

text \<open>
  A pointer introduction is used outside its documented domain when its initializer
  evaluates to the null pointer. The other macros have no such case.
\<close>

fun null_init :: "chaining_macro \<Rightarrow> state \<Rightarrow> bool" where
  "null_init (INTRODUCE_NON_NULL_PTR ty name init) s = (fst (user_expr init s) = 0)"
| "null_init (INTRODUCE_VAR ds) s = False"
| "null_init (CHAIN_EXPR e) s = False"

text \<open>
  The state in which the terminal statement of a sequence is entered, when the initializer
  of every pointer introduction on the way evaluates to a non-null pointer; \<open>None\<close> when
  one of them evaluates to the null pointer.
\<close>

fun chain_entry :: "chaining_macro list \<Rightarrow> state \<Rightarrow> state option" where
  "chain_entry [] s = Some s"
| "chain_entry (p # ps) s =
     (if null_init p s then None else chain_entry ps (macro_entry p s))"

text \<open>How often the statement labelled \<open>l\<close> has been executed so far.\<close>

definition executions :: "string \<Rightarrow> state \<Rightarrow> nat" where
  "executions l s = length (filter (\<lambda>ev. ev = Executed l) (trace s))"

section \<open>Reference shapes of the generated fragments\<close>

text \<open>
  The items of a list, written one after the other with a comma between two neighbours:
  the shape the documentation of the generators describes.
\<close>

fun comma_separated :: "fragment list \<Rightarrow> fragment" where
  "comma_separated [] = []"
| "comma_separated [x] = x"
| "comma_separated (x # y # ys) = x @ [Comma] @ comma_separated (y # ys)"

section \<open>Properties of the generators\<close>

subsection \<open>The dispatcher and the helper operations\<close>

lemma eval_args_v: "eval_args (map v xs) = Inr xs"
  by (induction xs) (simp_all add: v_def)

lemma call_values: "ML99_call op (map v xs) = (if length xs = ARITY op then IMPL op xs else Inl Arity_mismatch)"
  by (simp add: ML99_call_def eval_args_v)

lemma call1: "ARITY op = 1 \<Longrightarrow> ML99_call op [Inr x] = IMPL op [x]"
  by (simp add: ML99_call_def)

text \<open>
  An argument of a dispatched call is always evaluated: its failure is the failure of
  the call.
\<close>

lemma call1_err: "ML99_call op [Inl e] = Inl e"
  by (simp add: ML99_call_def)

lemma tuple_val: "ML99_tuple (Inr x) = Inr (LParen # x @ [RParen])"
  by (simp add: ML99_tuple_def ML99_tuple_op_def call1 v_def)

lemma tail_val: "ML99_variadicsTail (Inr (Comma # x)) = Inr x"
  by (simp add: ML99_variadicsTail_def ML99_variadicsTail_op_def call1 v_def)

lemma repeat_items:
  "ML99_repeat_IMPL n ML99_PRIV_indexedItem_op = Inr (concat (map (\<lambda>i. [Comma, paste_underscore i]) [0..<n]))"
  by (induction n)
     (simp_all add: v_def ML99_EMPTY_def ML99_TERMS_def call1 ML99_PRIV_indexedItem_op_def
        ML99_PRIV_indexedItem_ARITY_def ML99_PRIV_indexedItem_IMPL_def)

lemma tl_concat_commas:
  "xs \<noteq> [] \<Longrightarrow> tl (concat (map (\<lambda>x. Comma # x) xs)) = comma_separated xs"
proof (induction xs rule: comma_separated.induct)
  case (3 x y ys)
  then show ?case by simp
qed simp_all

lemma params_aux:
  "ML99_PRIV_indexedParamsAux_IMPL L i =
     Inr (concat (map (\<lambda>(p, T). Comma # T @ [paste_underscore p]) (enumerate i L)))"
proof (induction L arbitrary: i)
  case Nil
  show ?case
    by (simp add: ML99_PRIV_indexedParamsAux_IMPL.simps ML99_PRIV_indexedParamsAux_nil_IMPL_def
          v_def ML99_EMPTY_def)
next
  case (Cons x xs)
  show ?case
    by (simp add: ML99_PRIV_indexedParamsAux_IMPL.simps [of "x # xs"]
          ML99_PRIV_indexedParamsAux_cons_IMPL.simps Cons.IH ML99_TERMS_def v_def ML99_INC_def)
qed

lemma fields_aux:
  "ML99_PRIV_indexedFieldsAux_IMPL L i =
     Inr (concat (map (\<lambda>(p, T). T @ [paste_underscore p, Semi]) (enumerate i L)))"
proof (induction L arbitrary: i)
  case Nil
  show ?case
    by (simp add: ML99_PRIV_indexedFieldsAux_IMPL.simps ML99_PRIV_indexedFields_nil_IMPL_def
          v_def ML99_EMPTY_def)
next
  case (Cons x xs)
  show ?case
    by (simp add: ML99_PRIV_indexedFieldsAux_IMPL.simps [of "x # xs"]
          ML99_PRIV_indexedFields_cons_IMPL.simps Cons.IH ML99_TERMS_def v_def ML99_INC_def)
qed

lemma comma_separated_Cons:
  "comma_separated (x # xs) = x @ concat (map (\<lambda>y. Comma # y) xs)"
  by (induction xs arbitrary: x) simp_all

lemma tail_items:
  "xs \<noteq> [] \<Longrightarrow>
   ML99_variadicsTail (Inr (concat (map (\<lambda>x. Comma # x) xs))) = Inr (comma_separated xs)"
  using tl_concat_commas [of xs] by (cases xs) (simp_all add: tail_val)

lemma indexed_items:
  "n \<noteq> 0 \<Longrightarrow>
   ML99_PRIV_INDEXED_ITEMS n empty_case =
     Inr (comma_separated (map (\<lambda>i. [paste_underscore i]) [0..<n]))"
  using tail_items [of "map (\<lambda>i. [paste_underscore i]) [0..<n]"]
  by (simp add: ML99_PRIV_INDEXED_ITEMS_def ML99_PRIV_IF_def ML99_NAT_EQ_def repeat_items
        comp_def)

lemma indexed_items_zero: "ML99_PRIV_INDEXED_ITEMS 0 empty_case = empty_case"
  by (simp add: ML99_PRIV_INDEXED_ITEMS_def ML99_PRIV_IF_def ML99_NAT_EQ_def)

lemma braced_val: "ML99_braced [Inr x] = Inr (LBrace # x @ [RBrace])"
  by (simp add: ML99_braced_def ML99_braced_op_def ML99_braced_ARITY_def call1
        ML99_braced_IMPL_def v_def)

text \<open>
  C2. For every list \<open>L\<close> of types, \<^verbatim>\<open>ML99_indexedParams\<close> produces \<^verbatim>\<open>(void)\<close> when
  \<open>L\<close> is empty, and otherwise the parenthesized, comma-separated parameters
  \<^verbatim>\<open>T_p _p\<close>, one per element of \<open>L\<close>, in the order of \<open>L\<close>, with indices from 0.
\<close>

theorem indexedParams_shape:
  "ML99_indexedParams (v L) =
     Inr ([LParen] @
          (if L = [] then [Ident ''void'']
           else comma_separated (map (\<lambda>(p, T). T @ [paste_underscore p]) (enumerate 0 L))) @
          [RParen])"
proof (cases L)
  case Nil
  then show ?thesis
    by (simp add: ML99_indexedParams_def ML99_indexedParams_op_def ML99_indexedParams_ARITY_def
          v_def call1 ML99_indexedParams_IMPL_def ML99_PRIV_IF_def ML99_IS_NIL_def tuple_val)
next
  case (Cons x xs)
  let ?items = "map (\<lambda>(p, T). T @ [paste_underscore p]) (enumerate 0 L)"
  have items: "?items \<noteq> []"
    using Cons by simp
  have commas: "map (\<lambda>(p, T). Comma # T @ [paste_underscore p]) (enumerate 0 L) =
        map (\<lambda>x. Comma # x) ?items"
    by (simp add: case_prod_unfold)
  have "ML99_variadicsTail (ML99_PRIV_indexedParamsAux_IMPL L 0) =
             Inr (comma_separated ?items)"
    unfolding params_aux commas by (rule tail_items [OF items])
  then show ?thesis
    using Cons
    by (simp add: ML99_indexedParams_def ML99_indexedParams_op_def ML99_indexedParams_ARITY_def
          v_def call1 ML99_indexedParams_IMPL_def ML99_PRIV_IF_def ML99_IS_NIL_def tuple_val)
qed

theorem indexedParams_shape_witness:
  "ML99_indexedParams (v [[Ident ''int''], [Ident ''long'', Ident ''long''],
      [Ident ''char'', Punct ''*'']]) =
     Inr [LParen, Ident ''int'', Ident ''_0'', Comma, Ident ''long'', Ident ''long'',
          Ident ''_1'', Comma, Ident ''char'', Punct ''*'', Ident ''_2'', RParen] \<and>
   ML99_indexedParams (v []) = Inr [LParen, Ident ''void'', RParen]"
  using indexedParams_shape [of "[[Ident ''int''], [Ident ''long'', Ident ''long''],
      [Ident ''char'', Punct ''*'']]"]
    indexedParams_shape [of "[]"]
  by (simp add: paste_underscore_def decimal.simps)

text \<open>
  C3. For every counter \<open>n\<close>, \<^verbatim>\<open>ML99_indexedInitializerList\<close> produces \<^verbatim>\<open>{ 0 }\<close> when
  \<open>n\<close> is zero and \<^verbatim>\<open>{ _0, ..., _{n-1} }\<close> otherwise; it never produces the empty braced
  group.
\<close>

theorem indexedInitializerList_shape:
  "ML99_indexedInitializerList (v n) =
     Inr ([LBrace] @
          (if n = 0 then [Number 0]
           else comma_separated (map (\<lambda>i. [paste_underscore i]) [0..<n])) @
          [RBrace]) \<and>
   ML99_indexedInitializerList (v n) \<noteq> Inr [LBrace, RBrace]"
proof (cases "n = 0")
  case True
  then show ?thesis
    by (simp add: ML99_indexedInitializerList_def ML99_indexedInitializerList_op_def
          ML99_indexedInitializerList_ARITY_def v_def call1 ML99_indexedInitializerList_IMPL_def
          indexed_items_zero braced_val)
next
  case False
  then have "comma_separated (map (\<lambda>i. [paste_underscore i]) [0..<n]) \<noteq> []"
    by (cases n) (simp_all add: upt_conv_Cons comma_separated_Cons del: upt_Suc)
  with False show ?thesis
    by (simp add: ML99_indexedInitializerList_def ML99_indexedInitializerList_op_def
          ML99_indexedInitializerList_ARITY_def v_def call1 ML99_indexedInitializerList_IMPL_def
          indexed_items braced_val)
qed

theorem indexedInitializerList_shape_witness:
  "ML99_indexedInitializerList (v 3) =
     Inr [LBrace, Ident ''_0'', Comma, Ident ''_1'', Comma, Ident ''_2'', RBrace] \<and>
   ML99_indexedInitializerList (v 0) = Inr [LBrace, Number 0, RBrace]"
  using indexedInitializerList_shape [of 3] indexedInitializerList_shape [of 0]
  by (simp add: paste_underscore_def decimal.simps upt_rec)

text \<open>
  C4. For every counter \<open>n\<close>, \<^verbatim>\<open>ML99_indexedArgs\<close> produces the \<open>n\<close> items
  \<^verbatim>\<open>_0, ..., _{n-1}\<close> with commas between them only, and the empty fragment when \<open>n\<close>
  is zero.
\<close>

theorem indexedArgs_shape:
  "ML99_indexedArgs (v n) =
     Inr (comma_separated (map (\<lambda>i. [paste_underscore i]) [0..<n])) \<and>
   ML99_indexedArgs (v 0) = Inr []"
proof -
  have zero: "ML99_indexedArgs (v 0) = Inr []"
    by (simp add: ML99_indexedArgs_def ML99_indexedArgs_op_def ML99_indexedArgs_ARITY_def
          v_def call1 ML99_indexedArgs_IMPL_def indexed_items_zero ML99_EMPTY_def)
  have "ML99_indexedArgs (v n) =
          Inr (comma_separated (map (\<lambda>i. [paste_underscore i]) [0..<n]))"
  proof (cases "n = 0")
    case True
    with zero show ?thesis by simp
  next
    case False
    then show ?thesis
      by (simp add: ML99_indexedArgs_def ML99_indexedArgs_op_def ML99_indexedArgs_ARITY_def
            v_def call1 ML99_indexedArgs_IMPL_def indexed_items)
  qed
  with zero show ?thesis by simp
qed

theorem indexedArgs_shape_witness:
  "ML99_indexedArgs (v 3) = Inr [Ident ''_0'', Comma, Ident ''_1'', Comma, Ident ''_2''] \<and>
   ML99_indexedArgs (v 1) = Inr [Ident ''_0'']"
  using indexedArgs_shape [of 3] indexedArgs_shape [of 1]
  by (simp add: paste_underscore_def decimal.simps upt_rec)

text \<open>
  C5. For every list \<open>L\<close> of types, \<^verbatim>\<open>ML99_indexedFields\<close> produces the fields
  \<^verbatim>\<open>T_p _p;\<close>, one per element of \<open>L\<close>, each closed by a semicolon; for the empty list
  the result is the empty fragment, with no \<^verbatim>\<open>void\<close> in it.
\<close>

theorem indexedFields_shape:
  "ML99_indexedFields (v L) =
     Inr (concat (map (\<lambda>(p, T). T @ [paste_underscore p, Semi]) (enumerate 0 L))) \<and>
   ML99_indexedFields (v []) = Inr []"
  by (simp add: ML99_indexedFields_def ML99_indexedFields_op_def ML99_indexedFields_ARITY_def
        v_def call1 ML99_indexedFields_IMPL_def fields_aux)

theorem indexedFields_shape_witness:
  "ML99_indexedFields (v [[Ident ''int''], [Ident ''long'', Ident ''long''],
      [Ident ''char'', Punct ''*'']]) =
     Inr [Ident ''int'', Ident ''_0'', Semi, Ident ''long'', Ident ''long'', Ident ''_1'', Semi,
          Ident ''char'', Punct ''*'', Ident ''_2'', Semi]"
  using indexedFields_shape [of "[[Ident ''int''], [Ident ''long'', Ident ''long''],
      [Ident ''char'', Punct ''*'']]"]
  by (simp add: paste_underscore_def decimal.simps)

lemma call1_counted:
  "ARITY op = 1 \<Longrightarrow>
   ML99_call_counted op [Inr (x, j)] =
     (case IMPL op [x] of Inl e \<Rightarrow> Inl e | Inr (y, k) \<Rightarrow> Inr (y, j + 1 + k))"
  by (simp add: ML99_call_counted_def split: sum.splits)

lemma tail_counted:
  "ML99_variadicsTail_counted (Inr (x, j)) = Inr (VARIADICS_TAIL 0 x, j + 1)"
  by (simp add: ML99_variadicsTail_counted_def ML99_variadicsTail_op_counted_def
        ML99_variadicsTail_op_def call1_counted no_step_def v_def)

lemma repeat_items_counted:
  "ML99_repeat_IMPL_counted n ML99_PRIV_indexedItem_op_counted =
     Inr (concat (map (\<lambda>i. [Comma, paste_underscore i]) [0..<n]), n)"
  by (induction n)
     (simp_all add: v_def ML99_EMPTY_def ML99_TERMS_counted_def call1_counted no_step_def
        ML99_PRIV_indexedItem_op_counted_def ML99_PRIV_indexedItem_ARITY_def
        ML99_PRIV_indexedItem_IMPL_def)

lemma indexed_items_counted:
  assumes "n \<noteq> 0"
  shows "ML99_PRIV_INDEXED_ITEMS_counted n empty_case =
           Inr (comma_separated (map (\<lambda>i. [paste_underscore i]) [0..<n]), n + 1)"
proof -
  let ?items = "map (\<lambda>i. [paste_underscore i]) [0..<n]"
  from assms have items: "?items \<noteq> []"
    by simp
  have commas: "concat (map (\<lambda>i. [Comma, paste_underscore i]) [0..<n]) =
      concat (map (\<lambda>x. Comma # x) ?items)"
    by (simp add: comp_def)
  obtain x xs where split: "?items = x # xs"
    using items by (cases ?items) auto
  have "VARIADICS_TAIL 0 (concat (map (\<lambda>x. Comma # x) ?items)) =
        tl (concat (map (\<lambda>x. Comma # x) ?items))"
    by (simp only: split) simp
  also have "\<dots> = comma_separated ?items"
    using items by (rule tl_concat_commas)
  finally have "VARIADICS_TAIL 0 (concat (map (\<lambda>i. [Comma, paste_underscore i]) [0..<n])) =
      comma_separated ?items"
    by (simp only: commas)
  with assms show ?thesis
    by (simp add: ML99_PRIV_INDEXED_ITEMS_counted_def ML99_PRIV_IF_def ML99_NAT_EQ_def
          repeat_items_counted tail_counted)
qed

lemma indexed_items_zero_counted:
  "ML99_PRIV_INDEXED_ITEMS_counted 0 empty_case = empty_case"
  by (simp add: ML99_PRIV_INDEXED_ITEMS_counted_def ML99_PRIV_IF_def ML99_NAT_EQ_def)

lemma repeat_branch_zero_counted:
  "ML99_variadicsTail_counted (ML99_repeat_IMPL_counted 0 ML99_PRIV_indexedItem_op_counted) =
     Inr ([], 1)"
  by (simp add: no_step_def v_def ML99_EMPTY_def tail_counted)

text \<open>Forgetting the counts gives the generator of the section above.\<close>

lemma outcome_indexed_items:
  "outcome (ML99_PRIV_INDEXED_ITEMS_counted n empty_case) =
     ML99_PRIV_INDEXED_ITEMS n (outcome empty_case)"
proof (cases "n = 0")
  case True
  then show ?thesis
    by (simp add: indexed_items_zero_counted indexed_items_zero)
next
  case False
  then show ?thesis
    by (simp add: indexed_items_counted indexed_items outcome_def)
qed

text \<open>
  C6. In the counter-driven generators the selection hands only the selected branch to
  the evaluator, whatever term stands in the other position, a value or a failing term.
  For \<open>n = 0\<close> the result is the \<open>empty_case\<close> term itself, with its own rewrite steps
  and none of the repeat branch, which would take one step by itself. For \<open>n \<noteq> 0\<close> the
  result is that of the repeat branch alone, with the \<open>n + 1\<close> steps of that branch: a
  failure of the term in the untaken position does not make the whole fail, and its
  steps are not performed.
\<close>

theorem untaken_branch_never_rewritten:
  "ML99_PRIV_INDEXED_ITEMS 0 empty_case = empty_case \<and>
   ML99_PRIV_INDEXED_ITEMS_counted 0 counted_case = counted_case \<and>
   ML99_variadicsTail_counted (ML99_repeat_IMPL_counted 0 ML99_PRIV_indexedItem_op_counted) =
     Inr ([], 1) \<and>
   (n \<noteq> 0 \<longrightarrow>
      ML99_PRIV_INDEXED_ITEMS n empty_case =
        Inr (comma_separated (map (\<lambda>i. [paste_underscore i]) [0..<n])) \<and>
      ML99_PRIV_INDEXED_ITEMS_counted n counted_case =
        Inr (comma_separated (map (\<lambda>i. [paste_underscore i]) [0..<n]), n + 1))"
proof -
  have zero: "ML99_PRIV_INDEXED_ITEMS 0 empty_case = empty_case"
    by (rule indexed_items_zero)
  have zero_counted: "ML99_PRIV_INDEXED_ITEMS_counted 0 counted_case = counted_case"
    by (rule indexed_items_zero_counted)
  have branch: "ML99_variadicsTail_counted
      (ML99_repeat_IMPL_counted 0 ML99_PRIV_indexedItem_op_counted) = Inr ([], 1)"
    by (rule repeat_branch_zero_counted)
  have repeat: "ML99_PRIV_INDEXED_ITEMS n empty_case =
      Inr (comma_separated (map (\<lambda>i. [paste_underscore i]) [0..<n]))" if "n \<noteq> 0"
    using that by (rule indexed_items)
  have repeat_counted: "ML99_PRIV_INDEXED_ITEMS_counted n counted_case =
      Inr (comma_separated (map (\<lambda>i. [paste_underscore i]) [0..<n]), n + 1)" if "n \<noteq> 0"
    using that by (rule indexed_items_counted)
  from zero zero_counted branch repeat repeat_counted show ?thesis
    by blast
qed

theorem untaken_branch_never_rewritten_witness:
  "ML99_PRIV_INDEXED_ITEMS 3 (v [Number 0]) =
     Inr [Ident ''_0'', Comma, Ident ''_1'', Comma, Ident ''_2''] \<and>
   ML99_PRIV_INDEXED_ITEMS 3 (Inl Arity_mismatch) =
     Inr [Ident ''_0'', Comma, Ident ''_1'', Comma, Ident ''_2''] \<and>
   ML99_PRIV_INDEXED_ITEMS_counted 3 (Inr ([Number 0], 57)) =
     Inr ([Ident ''_0'', Comma, Ident ''_1'', Comma, Ident ''_2''], 4) \<and>
   ML99_PRIV_INDEXED_ITEMS 0 (v [Number 0]) = Inr [Number 0] \<and>
   ML99_PRIV_INDEXED_ITEMS_counted 0 (Inr ([Number 0], 0)) = Inr ([Number 0], 0)"
  using untaken_branch_never_rewritten [of "v [Number 0]" "Inr ([Number 0], 57)" 3]
    untaken_branch_never_rewritten [of "Inl Arity_mismatch" "Inr ([Number 0], 0)" 3]
  by (auto simp add: paste_underscore_def decimal.simps upt_rec v_def)

lemma call2: "ARITY op = 2 \<Longrightarrow> ML99_call op [Inr x, Inr y] = IMPL op [x, y]"
  by (simp add: ML99_call_def)

lemma call_mismatch:
  "length xs \<noteq> ARITY op \<Longrightarrow> ML99_call op (map v xs) = Inl Arity_mismatch"
  by (simp add: call_values)

text \<open>
  C7. The declaration formatters arrange their evaluated arguments into fixed shapes:
  \<^verbatim>\<open>struct name { body }\<close>, likewise for \<^verbatim>\<open>union\<close> and \<^verbatim>\<open>enum\<close>, the same without
  the name for the anonymous forms, and \<^verbatim>\<open>typedef body name;\<close>. The result depends on
  the arguments only: equal inputs give equal outputs.
\<close>

theorem formatters_shape:
  "ML99_braced [v body] = Inr ([LBrace] @ body @ [RBrace]) \<and>
   ML99_typedef (v name) [v body] = Inr ([Ident ''typedef''] @ body @ name @ [Semi]) \<and>
   ML99_struct (v name) [v body] = Inr ([Ident ''struct''] @ name @ [LBrace] @ body @ [RBrace]) \<and>
   ML99_anonStruct [v body] = Inr ([Ident ''struct'', LBrace] @ body @ [RBrace]) \<and>
   ML99_union (v name) [v body] = Inr ([Ident ''union''] @ name @ [LBrace] @ body @ [RBrace]) \<and>
   ML99_anonUnion [v body] = Inr ([Ident ''union'', LBrace] @ body @ [RBrace]) \<and>
   ML99_enum (v name) [v body] = Inr ([Ident ''enum''] @ name @ [LBrace] @ body @ [RBrace]) \<and>
   ML99_anonEnum [v body] = Inr ([Ident ''enum'', LBrace] @ body @ [RBrace]) \<and>
   (name = name' \<and> body = body' \<longrightarrow>
      ML99_struct (v name) [v body] = ML99_struct (v name') [v body'] \<and>
      ML99_union (v name) [v body] = ML99_union (v name') [v body'] \<and>
      ML99_enum (v name) [v body] = ML99_enum (v name') [v body'] \<and>
      ML99_typedef (v name) [v body] = ML99_typedef (v name') [v body'] \<and>
      ML99_braced [v body] = ML99_braced [v body'] \<and>
      ML99_anonStruct [v body] = ML99_anonStruct [v body'] \<and>
      ML99_anonUnion [v body] = ML99_anonUnion [v body'] \<and>
      ML99_anonEnum [v body] = ML99_anonEnum [v body'])"
proof -
  have "ML99_braced [v body] = Inr ([LBrace] @ body @ [RBrace])"
    by (simp add: v_def braced_val)
  moreover have "ML99_typedef (v name) [v body] = Inr ([Ident ''typedef''] @ body @ name @ [Semi])"
    by (simp add: ML99_typedef_def ML99_typedef_op_def ML99_typedef_ARITY_def call2 v_def
          ML99_typedef_IMPL_def)
  moreover have "ML99_struct (v name) [v body] =
      Inr ([Ident ''struct''] @ name @ [LBrace] @ body @ [RBrace])"
    by (simp add: ML99_struct_def ML99_struct_op_def ML99_struct_ARITY_def call2 v_def
          ML99_struct_IMPL_def)
  moreover have "ML99_anonStruct [v body] = Inr ([Ident ''struct'', LBrace] @ body @ [RBrace])"
    by (simp add: ML99_anonStruct_def ML99_anonStruct_op_def ML99_anonStruct_ARITY_def call1
          v_def ML99_anonStruct_IMPL_def)
  moreover have "ML99_union (v name) [v body] =
      Inr ([Ident ''union''] @ name @ [LBrace] @ body @ [RBrace])"
    by (simp add: ML99_union_def ML99_union_op_def ML99_union_ARITY_def call2 v_def
          ML99_union_IMPL_def)
  moreover have "ML99_anonUnion [v body] = Inr ([Ident ''union'', LBrace] @ body @ [RBrace])"
    by (simp add: ML99_anonUnion_def ML99_anonUnion_op_def ML99_anonUnion_ARITY_def call1
          v_def ML99_anonUnion_IMPL_def)
  moreover have "ML99_enum (v name) [v body] =
      Inr ([Ident ''enum''] @ name @ [LBrace] @ body @ [RBrace])"
    by (simp add: ML99_enum_def ML99_enum_op_def ML99_enum_ARITY_def call2 v_def
          ML99_enum_IMPL_def)
  moreover have "ML99_anonEnum [v body] = Inr ([Ident ''enum'', LBrace] @ body @ [RBrace])"
    by (simp add: ML99_anonEnum_def ML99_anonEnum_op_def ML99_anonEnum_ARITY_def call1
          v_def ML99_anonEnum_IMPL_def)
  ultimately show ?thesis by simp
qed

theorem formatters_shape_witness:
  "ML99_struct (v [Ident ''Point''])
      [v [Ident ''int'', Ident ''x'', Comma, Ident ''y'', Semi]] =
     Inr [Ident ''struct'', Ident ''Point'', LBrace, Ident ''int'', Ident ''x'', Comma,
          Ident ''y'', Semi, RBrace] \<and>
   ML99_typedef (v [Ident ''Point''])
      [v [Ident ''int'', Ident ''x'', Comma, Ident ''y'', Semi]] =
     Inr [Ident ''typedef'', Ident ''int'', Ident ''x'', Comma, Ident ''y'', Semi,
          Ident ''Point'', Semi] \<and>
   ML99_anonStruct [v [Ident ''int'', Ident ''x'', Comma, Ident ''y'', Semi]] =
     Inr [Ident ''struct'', LBrace, Ident ''int'', Ident ''x'', Comma, Ident ''y'', Semi,
          RBrace]"
  using formatters_shape [of "[Ident ''int'', Ident ''x'', Comma, Ident ''y'', Semi]"
      "[Ident ''Point'']" "[Ident ''Point'']"
      "[Ident ''int'', Ident ''x'', Comma, Ident ''y'', Semi]"]
  by simp

text \<open>
  C8. The anonymous forms and \<^verbatim>\<open>braced\<close> are registered with arity 1, the named forms
  with arity 2, and the dispatcher refuses, before any rewriting, a call of a formatter
  whose number of arguments differs from the registered arity.
\<close>

theorem formatters_arity:
  "ML99_braced_ARITY = 1 \<and> ML99_anonStruct_ARITY = 1 \<and> ML99_anonUnion_ARITY = 1 \<and>
   ML99_anonEnum_ARITY = 1 \<and>
   ML99_typedef_ARITY = 2 \<and> ML99_struct_ARITY = 2 \<and> ML99_union_ARITY = 2 \<and>
   ML99_enum_ARITY = 2 \<and>
   (length args \<noteq> 1 \<longrightarrow>
      ML99_braced (map v args) = Inl Arity_mismatch \<and>
      ML99_anonStruct (map v args) = Inl Arity_mismatch \<and>
      ML99_anonUnion (map v args) = Inl Arity_mismatch \<and>
      ML99_anonEnum (map v args) = Inl Arity_mismatch \<and>
      ML99_typedef (v ident) (map v args) = Inl Arity_mismatch \<and>
      ML99_struct (v ident) (map v args) = Inl Arity_mismatch \<and>
      ML99_union (v ident) (map v args) = Inl Arity_mismatch \<and>
      ML99_enum (v ident) (map v args) = Inl Arity_mismatch)"
proof -
  have named: "v ident # map v args = map v (ident # args)"
    by simp
  have "length args \<noteq> 1 \<Longrightarrow> ML99_braced (map v args) = Inl Arity_mismatch"
    unfolding ML99_braced_def
    by (rule call_mismatch) (simp add: ML99_braced_op_def ML99_braced_ARITY_def)
  moreover have "length args \<noteq> 1 \<Longrightarrow> ML99_anonStruct (map v args) = Inl Arity_mismatch"
    unfolding ML99_anonStruct_def
    by (rule call_mismatch) (simp add: ML99_anonStruct_op_def ML99_anonStruct_ARITY_def)
  moreover have "length args \<noteq> 1 \<Longrightarrow> ML99_anonUnion (map v args) = Inl Arity_mismatch"
    unfolding ML99_anonUnion_def
    by (rule call_mismatch) (simp add: ML99_anonUnion_op_def ML99_anonUnion_ARITY_def)
  moreover have "length args \<noteq> 1 \<Longrightarrow> ML99_anonEnum (map v args) = Inl Arity_mismatch"
    unfolding ML99_anonEnum_def
    by (rule call_mismatch) (simp add: ML99_anonEnum_op_def ML99_anonEnum_ARITY_def)
  moreover have "length args \<noteq> 1 \<Longrightarrow> ML99_typedef (v ident) (map v args) = Inl Arity_mismatch"
    unfolding ML99_typedef_def named
    by (rule call_mismatch) (simp add: ML99_typedef_op_def ML99_typedef_ARITY_def)
  moreover have "length args \<noteq> 1 \<Longrightarrow> ML99_struct (v ident) (map v args) = Inl Arity_mismatch"
    unfolding ML99_struct_def named
    by (rule call_mismatch) (simp add: ML99_struct_op_def ML99_struct_ARITY_def)
  moreover have "length args \<noteq> 1 \<Longrightarrow> ML99_union (v ident) (map v args) = Inl Arity_mismatch"
    unfolding ML99_union_def named
    by (rule call_mismatch) (simp add: ML99_union_op_def ML99_union_ARITY_def)
  moreover have "length args \<noteq> 1 \<Longrightarrow> ML99_enum (v ident) (map v args) = Inl Arity_mismatch"
    unfolding ML99_enum_def named
    by (rule call_mismatch) (simp add: ML99_enum_op_def ML99_enum_ARITY_def)
  ultimately show ?thesis
    by (simp add: ML99_braced_ARITY_def ML99_anonStruct_ARITY_def ML99_anonUnion_ARITY_def
          ML99_anonEnum_ARITY_def ML99_typedef_ARITY_def ML99_struct_ARITY_def
          ML99_union_ARITY_def ML99_enum_ARITY_def)
qed

theorem formatters_arity_witness:
  "ML99_struct (v [Ident ''Point'']) [] = Inl Arity_mismatch \<and>
   ML99_braced [] = Inl Arity_mismatch \<and>
   ML99_braced [v [Semi], v [Semi]] = Inl Arity_mismatch \<and>
   ML99_struct (v [Ident ''Point'']) [v [Semi], v [Semi]] = Inl Arity_mismatch \<and>
   ML99_struct_ARITY = 2 \<and> ML99_braced_ARITY = 1"
  using formatters_arity [of "[]" "[Ident ''Point'']"]
    formatters_arity [of "[[Semi], [Semi]]" "[Ident ''Point'']"]
  by simp

section \<open>Properties of the statement chaining macros\<close>

lemma assign_first_names: "map fst (assign_first x c st) = map fst st"
  by (induction st) auto

lemma apply_writes_names: "map fst (apply_writes ws st) = map fst st"
  unfolding apply_writes_def
  by (induction ws arbitrary: st) (auto simp: assign_first_names)

lemma for_loop_skip: "\<not> cond s \<Longrightarrow> for_loop cond step body s = Some (Normal, s)"
  by (subst for_loop.simps) simp

lemma for_loop_once:
  assumes "cond s" and "body s = Some (k, s1)" and "\<not> cond (step s1)"
  shows "for_loop cond step body s =
           Some (if k = Return then Return else Normal,
                 if k = Break \<or> k = Return then s1 else step s1)"
  using assms by (subst for_loop.simps) (cases k; simp add: for_loop_skip)

lemma for_loop_diverges:
  assumes "cond s" and "body s = None"
  shows "for_loop cond step body s = None"
  using assms by (subst for_loop.simps) simp

lemma run_decls_append: "run_decls (ds @ ds') s = run_decls ds' (run_decls ds s)"
  by (induction ds arbitrary: s) (auto split: prod.splits)

lemma for_stmt_skip:
  assumes "vars (run_decls decls s) = (flag, sentinel) # vs"
  shows "for_stmt decls (\<lambda>s. read_var flag s \<noteq> Some sentinel) (assign flag sentinel) body s =
           Some (Normal, (run_decls decls s)\<lparr>vars := drop (length decls) (vars (run_decls decls s))\<rparr>)"
  using assms by (simp add: for_stmt_def for_loop_skip read_var_def)

lemma for_stmt_diverges:
  assumes "vars (run_decls decls s) = (flag, c) # vs" and "c \<noteq> sentinel"
    and "body (run_decls decls s) = None"
  shows "for_stmt decls (\<lambda>s. read_var flag s \<noteq> Some sentinel) (assign flag sentinel) body s = None"
  using assms by (simp add: for_stmt_def for_loop_diverges read_var_def)

lemma for_stmt_once:
  assumes s1: "vars (run_decls decls s) = (flag, c) # vs" and c: "c \<noteq> sentinel"
    and decls: "decls \<noteq> []"
    and body: "body (run_decls decls s) = Some (k, s2)"
    and names: "map fst (vars s2) = map fst (vars (run_decls decls s))"
  shows "for_stmt decls (\<lambda>s. read_var flag s \<noteq> Some sentinel) (assign flag sentinel) body s =
           Some (if k = Return then Return else Normal,
                 s2\<lparr>vars := drop (length decls) (vars s2)\<rparr>)"
proof -
  let ?cond = "\<lambda>s. read_var flag s \<noteq> Some sentinel"
  let ?step = "assign flag sentinel"
  from names s1 obtain c2 vs2 where s2: "vars s2 = (flag, c2) # vs2"
    by (cases "vars s2") auto
  have enter: "?cond (run_decls decls s)"
    using s1 c by (simp add: read_var_def)
  have step: "?step s2 = s2\<lparr>vars := (flag, sentinel) # vs2\<rparr>"
    using s2 by (simp add: assign_def)
  then have leave: "\<not> ?cond (?step s2)"
    by (simp add: read_var_def)
  obtain n where n: "length decls = Suc n"
    using decls by (cases decls) auto
  have "for_loop ?cond ?step body (run_decls decls s) =
          Some (if k = Return then Return else Normal,
                if k = Break \<or> k = Return then s2 else ?step s2)"
    using enter body leave by (rule for_loop_once [where cond = ?cond and step = ?step])
  then show ?thesis
    using s2 n by (simp add: for_stmt_def step)
qed

lemma user_expr_eval:
  "user_expr e s =
     (fst (snd e (map_of (vars s))),
      \<lparr>vars = apply_writes (snd (snd e (map_of (vars s)))) (vars s),
       trace = trace s @ [Evaluated (fst e)]\<rparr>)"
  by (simp add: user_expr_def split: prod.splits)

lemma run_decls_user:
  "map fst (vars (run_decls (map (\<lambda>(x, e). (x, user_expr e)) ds) s)) =
     rev (map fst ds) @ map fst (vars s) \<and>
   trace (run_decls (map (\<lambda>(x, e). (x, user_expr e)) ds) s) =
     trace s @ map (\<lambda>(x, e). Evaluated (fst e)) ds"
proof (induction ds arbitrary: s)
  case Nil
  show ?case by simp
next
  case (Cons d ds)
  obtain x e where d: "d = (x, e)" by (cases d)
  show ?case
    using Cons.IH
    by (simp add: d user_expr_eval declare_var_def apply_writes_names)
qed


lemma introduce_var_entry:
  "run_decls (va_args @ [(''ml99_priv_break'', int_literal 0)]) s =
     declare_var ''ml99_priv_break'' 0 (run_decls va_args s)"
  by (simp add: run_decls_append int_literal_def)

lemma chain_expr_entry:
  "run_decls [(''ml99_priv_expr_stmt_break'', comma (user_expr e) (int_literal 0))] s =
     declare_var ''ml99_priv_expr_stmt_break'' 0 (snd (user_expr e s))"
  by (simp add: comma_def int_literal_def split: prod.splits)

lemma for_stmt_run:
  assumes s1: "vars (run_decls decls s) = (flag, c) # vs" and c: "c \<noteq> sentinel"
    and decls: "decls \<noteq> []"
    and names: "\<And>k s2. body (run_decls decls s) = Some (k, s2) \<Longrightarrow>
                  map fst (vars s2) = map fst (vars (run_decls decls s))"
  shows "for_stmt decls (\<lambda>s. read_var flag s \<noteq> Some sentinel) (assign flag sentinel) body s =
           (case body (run_decls decls s) of
              None \<Rightarrow> None
            | Some (k, s2) \<Rightarrow>
                Some (if k = Return then Return else Normal,
                      s2\<lparr>vars := drop (length decls) (vars s2)\<rparr>))"
proof (cases "body (run_decls decls s)")
  case None
  with s1 c show ?thesis
    by (simp add: for_stmt_diverges)
next
  case (Some r)
  obtain k s2 where r: "r = (k, s2)" by (cases r)
  from Some r have run: "body (run_decls decls s) = Some (k, s2)" by simp
  have "for_stmt decls (\<lambda>s. read_var flag s \<noteq> Some sentinel) (assign flag sentinel) body s =
          Some (if k = Return then Return else Normal, s2\<lparr>vars := drop (length decls) (vars s2)\<rparr>)"
    using s1 c decls run names [OF run] by (rule for_stmt_once)
  then show ?thesis
    by (simp add: run)
qed

lemma macro_entry_trace: "trace (macro_entry p s) = trace s @ macro_events p"
proof (cases p)
  case (INTRODUCE_VAR ds)
  then show ?thesis
    using run_decls_user [of ds s] by (simp add: declare_var_def)
next
  case (INTRODUCE_NON_NULL_PTR ty name init)
  then show ?thesis
    by (simp add: user_expr_eval declare_var_def)
next
  case (CHAIN_EXPR e)
  then show ?thesis
    by (simp add: user_expr_eval declare_var_def)
qed

lemma macro_run:
  assumes nn: "\<not> null_init p s"
    and names: "\<And>k s2. body (macro_entry p s) = Some (k, s2) \<Longrightarrow>
                  map fst (vars s2) = map fst (vars (macro_entry p s))"
  shows "\<exists>n. drop n (map fst (vars (macro_entry p s))) = map fst (vars s) \<and>
           macro_stmt p body s =
             (case body (macro_entry p s) of
                None \<Rightarrow> None
              | Some (k, s2) \<Rightarrow>
                  Some (if k = Return then Return else Normal, s2\<lparr>vars := drop n (vars s2)\<rparr>))"
proof (cases p)
  case (INTRODUCE_VAR ds)
  let ?va_args = "map (\<lambda>(x, e). (x, user_expr e)) ds"
  let ?decls = "?va_args @ [(''ml99_priv_break'', int_literal 0)]"
  have s1: "run_decls ?decls s = macro_entry p s"
    by (simp add: introduce_var_entry INTRODUCE_VAR)
  have entry: "vars (run_decls ?decls s) = (''ml99_priv_break'', 0) # vars (run_decls ?va_args s)"
    by (simp add: introduce_var_entry declare_var_def)
  have scope: "drop (length ?decls) (map fst (vars (macro_entry p s))) = map fst (vars s)"
    using entry run_decls_user [of ds s] by (simp add: s1 [symmetric])
  have "for_stmt ?decls (\<lambda>s. read_var ''ml99_priv_break'' s \<noteq> Some 1)
          (assign ''ml99_priv_break'' 1) body s =
        (case body (run_decls ?decls s) of
           None \<Rightarrow> None
         | Some (k, s2) \<Rightarrow>
             Some (if k = Return then Return else Normal,
                   s2\<lparr>vars := drop (length ?decls) (vars s2)\<rparr>))"
    using entry _ _ names [unfolded s1 [symmetric]] by (rule for_stmt_run) simp_all
  then have "macro_stmt p body s =
        (case body (macro_entry p s) of
           None \<Rightarrow> None
         | Some (k, s2) \<Rightarrow>
             Some (if k = Return then Return else Normal,
                   s2\<lparr>vars := drop (length ?decls) (vars s2)\<rparr>))"
    by (simp only: s1)
       (simp add: INTRODUCE_VAR ML99_INTRODUCE_VAR_TO_STMT_def ML99_PRIV_SHADOWS_def)
  with scope show ?thesis by blast
next
  case (INTRODUCE_NON_NULL_PTR ty name init)
  let ?decls = "[(name, user_expr init)]"
  have s1: "run_decls ?decls s = macro_entry p s"
    by (simp add: INTRODUCE_NON_NULL_PTR)
  have entry: "vars (run_decls ?decls s) = (name, fst (user_expr init s)) #
      apply_writes (snd (snd init (map_of (vars s)))) (vars s)"
    by (simp add: user_expr_eval declare_var_def)
  have non_null: "fst (user_expr init s) \<noteq> 0"
    using nn by (simp add: INTRODUCE_NON_NULL_PTR)
  have scope: "drop (length ?decls) (map fst (vars (macro_entry p s))) = map fst (vars s)"
    using entry by (simp add: s1 [symmetric] apply_writes_names)
  have "for_stmt ?decls (\<lambda>s. read_var name s \<noteq> Some 0) (assign name 0) body s =
        (case body (run_decls ?decls s) of
           None \<Rightarrow> None
         | Some (k, s2) \<Rightarrow>
             Some (if k = Return then Return else Normal,
                   s2\<lparr>vars := drop (length ?decls) (vars s2)\<rparr>))"
    using entry non_null _ names [unfolded s1 [symmetric]] by (rule for_stmt_run) simp
  then have "macro_stmt p body s =
        (case body (macro_entry p s) of
           None \<Rightarrow> None
         | Some (k, s2) \<Rightarrow>
             Some (if k = Return then Return else Normal,
                   s2\<lparr>vars := drop (length ?decls) (vars s2)\<rparr>))"
    by (simp only: s1)
       (simp add: INTRODUCE_NON_NULL_PTR ML99_INTRODUCE_NON_NULL_PTR_TO_STMT_def
          ML99_PRIV_SHADOWS_def)
  with scope show ?thesis by blast
next
  case (CHAIN_EXPR e)
  let ?decls = "[(''ml99_priv_expr_stmt_break'', comma (user_expr e) (int_literal 0))]"
  have s1: "run_decls ?decls s = macro_entry p s"
    by (simp only: chain_expr_entry) (simp add: CHAIN_EXPR split: prod.splits)
  have entry: "vars (run_decls ?decls s) = (''ml99_priv_expr_stmt_break'', 0) #
      apply_writes (snd (snd e (map_of (vars s)))) (vars s)"
    by (simp only: chain_expr_entry) (simp add: user_expr_eval declare_var_def)
  have scope: "drop (length ?decls) (map fst (vars (macro_entry p s))) = map fst (vars s)"
    using entry by (simp add: s1 [symmetric] apply_writes_names)
  have "for_stmt ?decls (\<lambda>s. read_var ''ml99_priv_expr_stmt_break'' s \<noteq> Some 1)
          (assign ''ml99_priv_expr_stmt_break'' 1) body s =
        (case body (run_decls ?decls s) of
           None \<Rightarrow> None
         | Some (k, s2) \<Rightarrow>
             Some (if k = Return then Return else Normal,
                   s2\<lparr>vars := drop (length ?decls) (vars s2)\<rparr>))"
    using entry _ _ names [unfolded s1 [symmetric]] by (rule for_stmt_run) simp_all
  then have "macro_stmt p body s =
        (case body (macro_entry p s) of
           None \<Rightarrow> None
         | Some (k, s2) \<Rightarrow>
             Some (if k = Return then Return else Normal,
                   s2\<lparr>vars := drop (length ?decls) (vars s2)\<rparr>))"
    by (simp only: s1) (simp add: CHAIN_EXPR ML99_CHAIN_EXPR_STMT_def ML99_PRIV_SHADOWS_def)
  with scope show ?thesis by blast
qed

lemma user_stmt_partial:
  assumes "user_stmt S s1 = Some (k, s2)"
  shows "map fst (vars s2) = map fst (vars s1) \<and> trace s2 = trace s1 @ [Executed (fst S)]"
  using assms by (auto simp add: user_stmt_def apply_writes_names split: option.splits)

lemma user_stmt_None: "user_stmt S s1 = None \<longleftrightarrow> snd S (map_of (vars s1)) = None"
  by (auto simp add: user_stmt_def split: option.splits)

text \<open>
  The run of a sequence whose pointer initializers are non-null: it returns exactly when
  the terminal statement returns from the state in which it is entered, the scope is then
  as before, and the trace has grown by the evaluations of the macros and one execution.
\<close>

lemma chain_run:
  assumes "chain_entry ps s = Some s1"
  shows "(chain_stmt ps (user_stmt S) s = None \<longleftrightarrow> snd S (map_of (vars s1)) = None) \<and>
         (\<forall>k s'. chain_stmt ps (user_stmt S) s = Some (k, s') \<longrightarrow>
            map fst (vars s') = map fst (vars s) \<and>
            trace s' = trace s @ concat (map macro_events ps) @ [Executed (fst S)])"
  using assms
proof (induction ps arbitrary: s)
  case Nil
  then show ?case
    using user_stmt_partial [of S s] by (simp add: chain_stmt_def user_stmt_None)
next
  case (Cons p ps)
  let ?body = "chain_stmt ps (user_stmt S)"
  let ?e = "macro_entry p s"
  from Cons.prems have nn: "\<not> null_init p s" and rest: "chain_entry ps ?e = Some s1"
    by (simp_all split: if_splits)
  note IH = Cons.IH [OF rest]
  have names: "\<And>k s2. ?body ?e = Some (k, s2) \<Longrightarrow> map fst (vars s2) = map fst (vars ?e)"
    using IH by blast
  have "\<exists>n. drop n (map fst (vars ?e)) = map fst (vars s) \<and>
      macro_stmt p ?body s =
        (case ?body ?e of
           None \<Rightarrow> None
         | Some (k, s2) \<Rightarrow>
             Some (if k = Return then Return else Normal, s2\<lparr>vars := drop n (vars s2)\<rparr>))"
    using nn names by (rule macro_run)
  then obtain n where scope: "drop n (map fst (vars ?e)) = map fst (vars s)"
    and eq: "macro_stmt p ?body s =
        (case ?body ?e of
           None \<Rightarrow> None
         | Some (k, s2) \<Rightarrow>
             Some (if k = Return then Return else Normal, s2\<lparr>vars := drop n (vars s2)\<rparr>))"
    by blast
  have step: "chain_stmt (p # ps) (user_stmt S) s = macro_stmt p ?body s"
    by (simp add: chain_stmt_def)
  show ?case
  proof (cases "?body ?e")
    case None
    with IH eq step show ?thesis by simp
  next
    case (Some r)
    obtain k2 s2 where r: "r = (k2, s2)" by (cases r)
    from IH Some r have names2: "map fst (vars s2) = map fst (vars ?e)"
      and tr2: "trace s2 = trace ?e @ concat (map macro_events ps) @ [Executed (fst S)]"
      and returns: "snd S (map_of (vars s1)) \<noteq> None"
      by auto
    have "map fst (drop n (vars s2)) = drop n (map fst (vars s2))"
      by (simp add: drop_map)
    also have "\<dots> = map fst (vars s)"
      using names2 scope by simp
    finally have scope2: "map fst (drop n (vars s2)) = map fst (vars s)" .
    from eq Some r step
    have "chain_stmt (p # ps) (user_stmt S) s =
        Some (if k2 = Return then Return else Normal, s2\<lparr>vars := drop n (vars s2)\<rparr>)"
      by simp
    with scope2 tr2 returns show ?thesis
      by (simp add: macro_entry_trace)
  qed
qed

lemma macro_events_no_execution: "filter (\<lambda>ev. ev = Executed l) (macro_events p) = []"
  by (cases p) (auto simp: filter_empty_conv)

lemma chain_events_no_execution:
  "filter (\<lambda>ev. ev = Executed l) (concat (map macro_events ps)) = []"
  by (induction ps) (simp_all add: macro_events_no_execution)

text \<open>
  C1, as amended. Take any finite sequence of statement chaining macros in front of a
  terminal statement \<open>S\<close>, where the initializer of every pointer introduction in the
  sequence evaluates to a non-null pointer when it is reached, so that \<open>S\<close> is entered in
  a state \<open>s1\<close>. Then the chained statement completes exactly when \<open>S\<close> completes from
  \<open>s1\<close>, and on completion it has executed \<open>S\<close> exactly once, after the initializers and
  expressions of the macros in their order, whatever the length of the sequence.
\<close>

theorem chain_executes_once:
  assumes "chain_entry ps s = Some s1"
  shows "(chain_stmt ps (user_stmt S) s = None \<longleftrightarrow> snd S (map_of (vars s1)) = None) \<and>
         (chain_stmt ps (user_stmt S) s = Some (k, s') \<longrightarrow>
            trace s' = trace s @ concat (map macro_events ps) @ [Executed (fst S)] \<and>
            executions (fst S) s' = executions (fst S) s + 1)"
proof -
  note run = chain_run [OF assms, of S]
  have "trace s' = trace s @ concat (map macro_events ps) @ [Executed (fst S)] \<and>
        executions (fst S) s' = executions (fst S) s + 1"
    if "chain_stmt ps (user_stmt S) s = Some (k, s')"
  proof -
    from run that
    have tr: "trace s' = trace s @ concat (map macro_events ps) @ [Executed (fst S)]"
      by blast
    then show ?thesis
      by (simp add: executions_def chain_events_no_execution)
  qed
  with run show ?thesis by blast
qed

theorem chain_executes_once_witness:
  "chain_stmt
     [CHAIN_EXPR (''e1'', \<lambda>env. (5, [(''x'', 5)])),
      INTRODUCE_NON_NULL_PTR ''int'' ''p'' (''e2'', \<lambda>env. (100, [])),
      INTRODUCE_VAR [(''y'', (''e3'', \<lambda>env. (7, [])))]]
     (user_stmt (''S'', \<lambda>env. Some (Normal, [(''x'', 1)])))
     \<lparr>vars = [(''x'', 0)], trace = []\<rparr> \<noteq> None \<and>
   (\<exists>k s'. chain_stmt
       [CHAIN_EXPR (''e1'', \<lambda>env. (5, [(''x'', 5)])),
        INTRODUCE_NON_NULL_PTR ''int'' ''p'' (''e2'', \<lambda>env. (100, [])),
        INTRODUCE_VAR [(''y'', (''e3'', \<lambda>env. (7, [])))]]
       (user_stmt (''S'', \<lambda>env. Some (Normal, [(''x'', 1)])))
       \<lparr>vars = [(''x'', 0)], trace = []\<rparr> = Some (k, s') \<and>
     trace s' = [Evaluated ''e1'', Evaluated ''e2'', Evaluated ''e3'', Executed ''S''] \<and>
     executions ''S'' s' = 1)"
proof -
  let ?ps = "[CHAIN_EXPR (''e1'', \<lambda>env. (5, [(''x'', 5)])),
        INTRODUCE_NON_NULL_PTR ''int'' ''p'' (''e2'', \<lambda>env. (100, [])),
        INTRODUCE_VAR [(''y'', (''e3'', \<lambda>env. (7, [])))]]"
  let ?S = "(''S'', \<lambda>env::env. Some (Normal, [(''x'', 1::int)]))"
  let ?s = "\<lparr>vars = [(''x'', 0)], trace = []\<rparr>"
  let ?s1 = "\<lparr>vars = [(''ml99_priv_break'', 0), (''y'', 7), (''p'', 100),
                       (''ml99_priv_expr_stmt_break'', 0), (''x'', 5)],
               trace = [Evaluated ''e1'', Evaluated ''e2'', Evaluated ''e3'']\<rparr>"
  have entry: "chain_entry ?ps ?s = Some ?s1"
    by (simp add: user_expr_def declare_var_def apply_writes_def)
  have returns: "chain_stmt ?ps (user_stmt ?S) ?s \<noteq> None"
    using chain_executes_once [OF entry, of ?S] by simp
  then obtain k s' where run: "chain_stmt ?ps (user_stmt ?S) ?s = Some (k, s')"
    by auto
  with chain_executes_once [OF entry, of ?S k s']
  have "trace s' = [Evaluated ''e1'', Evaluated ''e2'', Evaluated ''e3'', Executed ''S''] \<and>
        executions ''S'' s' = 1"
    by (simp add: executions_def)
  with run returns show ?thesis by blast
qed

text \<open>
  Without the condition on the pointers, C1 fails: a pointer introduction whose
  initializer is the null pointer completes normally and the terminal statement is not
  executed.
\<close>

theorem chain_null_pointer_counterexample:
  "chain_stmt [INTRODUCE_NON_NULL_PTR ''double'' ''x_ptr'' (''init'', \<lambda>env. (0, []))]
      (user_stmt (''S'', \<lambda>env. Some (Normal, [])))
      \<lparr>vars = [], trace = []\<rparr> =
     Some (Normal, \<lparr>vars = [], trace = [Evaluated ''init'']\<rparr>) \<and>
   executions ''S'' \<lparr>vars = [], trace = [Evaluated ''init'']\<rparr> = 0"
  by (simp add: chain_stmt_def ML99_INTRODUCE_NON_NULL_PTR_TO_STMT_def ML99_PRIV_SHADOWS_def
        for_stmt_def for_loop.simps user_expr_def declare_var_def read_var_def apply_writes_def
        executions_def)

text \<open>The run of a sequence of three macros, computed step by step.\<close>

lemma chain_example:
  "chain_stmt
     [CHAIN_EXPR (''e1'', \<lambda>env. (5, [(''x'', 5)])),
      INTRODUCE_NON_NULL_PTR ''int'' ''p'' (''e2'', \<lambda>env. (100, [])),
      INTRODUCE_VAR [(''y'', (''e3'', \<lambda>env. (7, [])))]]
     (user_stmt (''S'', \<lambda>env. Some (Normal, [(''x'', 1)])))
     \<lparr>vars = [(''x'', 0)], trace = []\<rparr> =
   Some (Normal, \<lparr>vars = [(''x'', 1)],
     trace = [Evaluated ''e1'', Evaluated ''e2'', Evaluated ''e3'', Executed ''S'']\<rparr>)"
  by (simp add: chain_stmt_def ML99_INTRODUCE_NON_NULL_PTR_TO_STMT_def ML99_PRIV_SHADOWS_def
        ML99_CHAIN_EXPR_STMT_def ML99_INTRODUCE_VAR_TO_STMT_def comma_def int_literal_def
        for_stmt_def for_loop.simps user_expr_def user_stmt_def declare_var_def read_var_def
        apply_writes_def assign_def)

text \<open>
  C9. \<^verbatim>\<open>ML99_CHAIN_EXPR_STMT(expr)\<close> evaluates \<open>expr\<close> exactly once, before the following
  statement, which runs exactly once in a scope that has the effects \<open>ws\<close> of \<open>expr\<close>;
  the value \<open>c\<close> of \<open>expr\<close> appears nowhere in the result, and nothing is required of
  the following statement. If the following statement does not return, neither does the
  whole.
\<close>

theorem chain_expr_stmt_once:
  assumes e: "snd e (map_of (vars s)) = (c, ws)"
  shows "ML99_CHAIN_EXPR_STMT (user_expr e) (user_stmt S) s =
           (case snd S (map_of ((''ml99_priv_expr_stmt_break'', 0) # apply_writes ws (vars s))) of
              None \<Rightarrow> None
            | Some (k, ws') \<Rightarrow>
                Some (if k = Return then Return else Normal,
                      \<lparr>vars = tl (apply_writes ws'
                                ((''ml99_priv_expr_stmt_break'', 0) # apply_writes ws (vars s))),
                       trace = trace s @ [Evaluated (fst e), Executed (fst S)]\<rparr>))"
proof -
  let ?decls = "[(''ml99_priv_expr_stmt_break'', comma (user_expr e) (int_literal 0))]"
  let ?s1 = "run_decls ?decls s"
  let ?st1 = "(''ml99_priv_expr_stmt_break'', 0) # apply_writes ws (vars s)"
  have entry: "vars ?s1 = ?st1"
    by (simp only: chain_expr_entry) (simp add: user_expr_eval declare_var_def e)
  have tr: "trace ?s1 = trace s @ [Evaluated (fst e)]"
    by (simp only: chain_expr_entry) (simp add: user_expr_eval declare_var_def)
  have names: "\<And>k s2. user_stmt S ?s1 = Some (k, s2) \<Longrightarrow> map fst (vars s2) = map fst (vars ?s1)"
    using user_stmt_partial by blast
  have "for_stmt ?decls (\<lambda>s. read_var ''ml99_priv_expr_stmt_break'' s \<noteq> Some 1)
          (assign ''ml99_priv_expr_stmt_break'' 1) (user_stmt S) s =
        (case user_stmt S ?s1 of
           None \<Rightarrow> None
         | Some (k, s2) \<Rightarrow>
             Some (if k = Return then Return else Normal,
                   s2\<lparr>vars := drop (length ?decls) (vars s2)\<rparr>))"
    using entry _ _ names by (rule for_stmt_run) simp_all
  moreover have "user_stmt S ?s1 =
      (case snd S (map_of ?st1) of
         None \<Rightarrow> None
       | Some (k, ws') \<Rightarrow>
           Some (k, \<lparr>vars = apply_writes ws' ?st1,
                     trace = trace s @ [Evaluated (fst e), Executed (fst S)]\<rparr>))"
    by (simp only: user_stmt_def entry tr) (simp split: option.splits)
  ultimately show ?thesis
    by (simp add: ML99_CHAIN_EXPR_STMT_def ML99_PRIV_SHADOWS_def drop_Suc split: option.splits)
qed

theorem chain_expr_stmt_once_witness:
  "ML99_CHAIN_EXPR_STMT (user_expr (''x = 5'', \<lambda>env. (5, [(''x'', 5)])))
      (user_stmt (''S'', \<lambda>env. Some (Normal, [(''y'', the (env ''x'') + 1)])))
      \<lparr>vars = [(''x'', 0), (''y'', 0)], trace = []\<rparr> =
     Some (Normal, \<lparr>vars = [(''x'', 5), (''y'', 6)],
       trace = [Evaluated ''x = 5'', Executed ''S'']\<rparr>)"
  using chain_expr_stmt_once
    [of "(''x = 5'', \<lambda>env. (5, [(''x'', 5)]))" "\<lparr>vars = [(''x'', 0), (''y'', 0)], trace = []\<rparr>"
        5 "[(''x'', 5)]" "(''S'', \<lambda>env. Some (Normal, [(''y'', the (env ''x'') + 1)]))"]
  by (simp add: apply_writes_def)

text \<open>
  C10. For \<^verbatim>\<open>ML99_INTRODUCE_NON_NULL_PTR_TO_STMT(ty, name, init)\<close> the following statement
  runs exactly once when \<open>init\<close> evaluates to a non-null pointer; when \<open>init\<close> evaluates
  to the null pointer the whole statement completes normally and the following statement
  is executed zero times.
\<close>

theorem non_null_ptr_guard:
  assumes init: "snd init (map_of (vars s)) = (c, ws)"
  shows "ML99_INTRODUCE_NON_NULL_PTR_TO_STMT ty name (user_expr init) (user_stmt S) s =
           (if c = 0 then
              Some (Normal, \<lparr>vars = apply_writes ws (vars s),
                             trace = trace s @ [Evaluated (fst init)]\<rparr>)
            else
              (case snd S (map_of ((name, c) # apply_writes ws (vars s))) of
                 None \<Rightarrow> None
               | Some (k, ws') \<Rightarrow>
                   Some (if k = Return then Return else Normal,
                         \<lparr>vars = tl (apply_writes ws' ((name, c) # apply_writes ws (vars s))),
                          trace = trace s @ [Evaluated (fst init), Executed (fst S)]\<rparr>)))"
proof -
  let ?decls = "[(name, user_expr init)]"
  let ?s1 = "run_decls ?decls s"
  let ?st1 = "(name, c) # apply_writes ws (vars s)"
  have entry: "vars ?s1 = ?st1"
    by (simp add: user_expr_eval declare_var_def init)
  have tr: "trace ?s1 = trace s @ [Evaluated (fst init)]"
    by (simp add: user_expr_eval declare_var_def)
  show ?thesis
  proof (cases "c = 0")
    case True
    have "vars ?s1 = (name, 0) # apply_writes ws (vars s)"
      using entry True by simp
    then have "for_stmt ?decls (\<lambda>s. read_var name s \<noteq> Some 0) (assign name 0) (user_stmt S) s =
        Some (Normal, ?s1\<lparr>vars := drop (length ?decls) (vars ?s1)\<rparr>)"
      by (rule for_stmt_skip)
    then show ?thesis
      using True
      by (simp add: ML99_INTRODUCE_NON_NULL_PTR_TO_STMT_def ML99_PRIV_SHADOWS_def
            user_expr_eval declare_var_def init)
  next
    case False
    have names: "\<And>k s2. user_stmt S ?s1 = Some (k, s2) \<Longrightarrow>
        map fst (vars s2) = map fst (vars ?s1)"
      using user_stmt_partial by blast
    have "for_stmt ?decls (\<lambda>s. read_var name s \<noteq> Some 0) (assign name 0) (user_stmt S) s =
          (case user_stmt S ?s1 of
             None \<Rightarrow> None
           | Some (k, s2) \<Rightarrow>
               Some (if k = Return then Return else Normal,
                     s2\<lparr>vars := drop (length ?decls) (vars s2)\<rparr>))"
      using entry False _ names by (rule for_stmt_run) simp
    moreover have "user_stmt S ?s1 =
        (case snd S (map_of ?st1) of
           None \<Rightarrow> None
         | Some (k, ws') \<Rightarrow>
             Some (k, \<lparr>vars = apply_writes ws' ?st1,
                       trace = trace s @ [Evaluated (fst init), Executed (fst S)]\<rparr>))"
      by (simp only: user_stmt_def entry tr) (simp split: option.splits)
    ultimately show ?thesis
      using False
      by (simp add: ML99_INTRODUCE_NON_NULL_PTR_TO_STMT_def ML99_PRIV_SHADOWS_def drop_Suc
            split: option.splits)
  qed
qed

theorem non_null_ptr_guard_witness:
  "ML99_INTRODUCE_NON_NULL_PTR_TO_STMT ''double'' ''x_ptr'' (user_expr (''init'', \<lambda>env. (0, [])))
      (user_stmt (''S'', \<lambda>env. Some (Normal, [(''y'', 1)])))
      \<lparr>vars = [(''y'', 0)], trace = []\<rparr> =
     Some (Normal, \<lparr>vars = [(''y'', 0)], trace = [Evaluated ''init'']\<rparr>) \<and>
   ML99_INTRODUCE_NON_NULL_PTR_TO_STMT ''double'' ''x_ptr'' (user_expr (''init'', \<lambda>env. (64, [])))
      (user_stmt (''S'', \<lambda>env. Some (Normal, [(''y'', the (env ''x_ptr''))])))
      \<lparr>vars = [(''y'', 0)], trace = []\<rparr> =
     Some (Normal, \<lparr>vars = [(''y'', 64)], trace = [Evaluated ''init'', Executed ''S'']\<rparr>)"
  using non_null_ptr_guard
    [of "(''init'', \<lambda>env. (0, []))" "\<lparr>vars = [(''y'', 0)], trace = []\<rparr>" 0 "[]"
        "''double''" "''x_ptr''" "(''S'', \<lambda>env. Some (Normal, [(''y'', 1)]))"]
    non_null_ptr_guard
    [of "(''init'', \<lambda>env. (64, []))" "\<lparr>vars = [(''y'', 0)], trace = []\<rparr>" 64 "[]"
        "''double''" "''x_ptr''" "(''S'', \<lambda>env. Some (Normal, [(''y'', the (env ''x_ptr''))]))"]
  by (simp add: apply_writes_def)

end
